theory Spec2Isabelle
  imports Complex_Main
begin

section \<open>Payment confirmation: \<open>handleSuccessfulPayment\<close>\<close>

text \<open>
  The script \<^verbatim>\<open>temp_patch.py\<close> replaces one function of
  \<^verbatim>\<open>backend/src/services/stripe.service.ts\<close> by the TypeScript text it carries:
  \<^verbatim>\<open>handleSuccessfulPayment(sessionId)\<close>. That function is the program modelled here.
  It reads a checkout session from the payment provider, resolves the order named in the
  session's metadata, checks identity, currency and amount, marks the order as paid
  together with a new payment row, and then calls the promo, mail and analytics
  collaborators.
\<close>

subsection \<open>JavaScript numbers\<close>

text \<open>
  A JavaScript number is an IEEE 754 binary64 value: a finite rational with a 53 bit
  significand, an infinity, or NaN. The two zeros are not told apart: nothing in the
  function divides by zero or prints a zero's sign.
\<close>

datatype number = Fin rat | PInf | NInf | NaN

definition pow2 :: "int \<Rightarrow> rat" where
  "pow2 k = (if 0 \<le> k then 2 ^ nat k else 1 / 2 ^ nat (- k))"

text \<open>The number of binary digits of a positive integer.\<close>

function bitlen :: "int \<Rightarrow> int" where
  "bitlen n = (if n \<le> 0 then 0 else 1 + bitlen (n div 2))"
  by pat_completeness auto
termination
  by (relation "measure nat") auto

declare bitlen.simps [simp del]

text \<open>
  The binary exponent of a rational \<open>x \<noteq> 0\<close>: the \<open>e\<close> with
  \<open>2 ^ e \<le> \<bar>x\<bar> < 2 ^ (e + 1)\<close>, found from the bit lengths of numerator and
  denominator.
\<close>

definition exponent :: "rat \<Rightarrow> int" where
  "exponent x = (case quotient_of x of (p, q) \<Rightarrow>
     (let d = bitlen \<bar>p\<bar> - bitlen q
      in if pow2 d \<le> \<bar>x\<bar> then d else d - 1))"

definition round_half_even :: "rat \<Rightarrow> int" where
  "round_half_even y = (let f = \<lfloor>y\<rfloor>; r = y - of_int f in
      if r < 1 / 2 then f else if 1 / 2 < r then f + 1 else if even f then f else f + 1)"

text \<open>
  Rounding to the nearest binary64 value, ties to the even significand: the spacing of
  the values around \<open>x\<close> is \<open>2 ^ (e - 52)\<close>, with \<open>e\<close> the exponent of \<open>x\<close> and at
  least \<open>- 1022\<close> (the subnormal range), and a result of magnitude \<open>2 ^ 1024\<close> or
  more (exponent 1024 or more) is an infinity. Every arithmetic operation, the reading
  of a numeric literal and \<^verbatim>\<open>Number(...)\<close> of a decimal round their exact result
  this way.
\<close>

definition to_double :: "rat \<Rightarrow> number" where
  "to_double x = (if x = 0 then Fin 0 else
     (let e = max (exponent x) (- 1022);
          ulp = pow2 (e - 52);
          r = of_int (round_half_even (x / ulp)) * ulp
      in if r \<noteq> 0 \<and> 1024 \<le> exponent r then (if 0 < r then PInf else NInf) else Fin r))"

text \<open>\<^verbatim>\<open>a - b\<close>\<close>

fun num_sub :: "number \<Rightarrow> number \<Rightarrow> number" where
  "num_sub NaN _ = NaN"
| "num_sub _ NaN = NaN"
| "num_sub (Fin x) (Fin y) = to_double (x - y)"
| "num_sub (Fin x) PInf = NInf"
| "num_sub (Fin x) NInf = PInf"
| "num_sub PInf PInf = NaN"
| "num_sub PInf _ = PInf"
| "num_sub NInf NInf = NaN"
| "num_sub NInf _ = NInf"

text \<open>\<^verbatim>\<open>a / d\<close> for a finite divisor \<open>d > 0\<close> (the function only divides by 100).\<close>

fun num_div_by :: "number \<Rightarrow> rat \<Rightarrow> number" where
  "num_div_by (Fin x) d = to_double (x / d)"
| "num_div_by PInf d = PInf"
| "num_div_by NInf d = NInf"
| "num_div_by NaN d = NaN"

text \<open>\<^verbatim>\<open>Math.abs(a)\<close>\<close>

fun num_abs :: "number \<Rightarrow> number" where
  "num_abs (Fin x) = Fin \<bar>x\<bar>"
| "num_abs PInf = PInf"
| "num_abs NInf = PInf"
| "num_abs NaN = NaN"

text \<open>\<^verbatim>\<open>a > b\<close>: false as soon as one side is NaN.\<close>

fun num_gt :: "number \<Rightarrow> number \<Rightarrow> bool" where
  "num_gt NaN _ = False"
| "num_gt _ NaN = False"
| "num_gt (Fin x) (Fin y) = (y < x)"
| "num_gt (Fin x) PInf = False"
| "num_gt (Fin x) NInf = True"
| "num_gt PInf PInf = False"
| "num_gt PInf _ = True"
| "num_gt NInf _ = False"

text \<open>\<^verbatim>\<open>x || 0\<close> on a number that may be null: null, 0 and NaN are falsy.\<close>

definition or_zero :: "number option \<Rightarrow> number" where
  "or_zero x = (case x of None \<Rightarrow> Fin 0
     | Some v \<Rightarrow> if v = Fin 0 \<or> v = NaN then Fin 0 else v)"

subsection \<open>JavaScript strings\<close>

text \<open>
  A string that may be null or undefined is a \<open>string option\<close>. In a condition it is
  truthy when it is present and not empty. \<^verbatim>\<open>x || d\<close> is \<open>x\<close> when \<open>x\<close> is truthy
  and \<open>d\<close> otherwise.
\<close>

definition truthy :: "string option \<Rightarrow> bool" where
  "truthy x = (case x of None \<Rightarrow> False | Some s \<Rightarrow> s \<noteq> [])"

definition or_else :: "string option \<Rightarrow> string \<Rightarrow> string" where
  "or_else x d = (case x of None \<Rightarrow> d | Some s \<Rightarrow> if s = [] then d else s)"

text \<open>
  \<^verbatim>\<open>toLowerCase()\<close> on the code units below 256: the letters A to Z and the
  Latin-1 capitals move up by 32, every other unit stays.
\<close>

definition toLowerCase_char :: "char \<Rightarrow> char" where
  "toLowerCase_char c = (let n = (of_char c :: nat) in
     if (65 \<le> n \<and> n \<le> 90) \<or> (192 \<le> n \<and> n \<le> 222 \<and> n \<noteq> 215)
     then char_of (n + 32) else c)"

definition toLowerCase :: "string \<Rightarrow> string" where
  "toLowerCase s = map toLowerCase_char s"

subsection \<open>Data model\<close>

text \<open>
  The provider's checkout session, with the fields the function reads. \<open>metadata\<close> may
  be null (the source reads it with \<^verbatim>\<open>?.\<close>), and so may every other field but the
  payment status. \<open>amount_total\<close> is the provider's integer count of minor units.
\<close>

record Session =
  payment_status :: string
  metadata :: "(string \<rightharpoonup> string) option"
  client_reference_id :: "string option"
  amount_total :: "int option"
  currency :: "string option"
  payment_intent :: "string option"
  payment_method_types :: "string list option"

record User =
  firstName :: "string option"
  email :: string

record Address =
  country :: "string option"

text \<open>
  An order row with the relations the function includes. Its identifier is the key it
  is stored under. \<open>totalAmount\<close> is an exact decimal.
\<close>

record Order =
  userId :: string
  status :: string
  totalAmount :: rat
  promoCodeId :: "string option"
  orderNumber :: string
  designTier :: string
  user :: User
  items :: "string list"
  address :: "Address option"
  paidAt :: "nat option"

text \<open>A payment row; \<open>p_orderId\<close> is the order it was created under.\<close>

record Payment =
  p_orderId :: string
  stripePaymentId :: "string option"
  amount :: number
  p_currency :: string
  p_status :: string
  paymentMethod :: string

text \<open>
  The payloads handed to the collaborators. A decimal is kept as its value: the text
  that \<^verbatim>\<open>toString()\<close> makes of it is not modelled.
\<close>

record ConfirmationMail =
  c_customerName :: string
  c_customerEmail :: string
  c_orderNumber :: string
  c_orderTotal :: rat
  c_tier :: string
  c_itemCount :: nat
  c_orderUrl :: string

record GuideMail =
  g_customerName :: string
  g_customerEmail :: string
  g_orderNumber :: string
  g_orderUrl :: string

record AnalyticsEvent =
  event :: string
  a_order_id :: string
  a_order_number :: string
  a_amount :: rat
  a_tier :: string
  a_item_count :: nat
  a_country :: string

text \<open>A call made to a collaborator, in the order the calls are made.\<close>

datatype dispatch =
  IncrementPromoUsage string
  | SendOrderConfirmation ConfirmationMail
  | SendPromptGuide GuideMail
  | SendAnalyticsEvent AnalyticsEvent

text \<open>A line written to the console: \<^verbatim>\<open>console.log\<close> or \<^verbatim>\<open>console.error\<close>.\<close>

datatype console_line = Log string | LogError string string

text \<open>
  The state the function works on: the order and payment tables, the calls made to the
  collaborators, the console, and the rejected promises nobody handles.
\<close>

record state =
  orders :: "string \<rightharpoonup> Order"
  payments :: "Payment list"
  outbox :: "dispatch list"
  console :: "console_line list"
  unhandled :: "string list"

text \<open>
  What the surroundings answer. A call to a collaborator either throws before it
  returns, or returns a promise that is then fulfilled or rejected with a reason. The
  provider's retrieval rejects for a session it does not know. The two database calls
  are total: the lookup finds the order or finds none, and the update of an order just
  found succeeds.
\<close>

datatype outcome = Fulfilled | Rejected string | Threw string

record env =
  retrieve :: "string \<rightharpoonup> Session"
  now :: nat
  FRONTEND_URL :: "string option"
  incrementPromoUsage :: "string \<Rightarrow> outcome"
  sendOrderConfirmation :: "ConfirmationMail \<Rightarrow> outcome"
  sendPromptGuide :: "GuideMail \<Rightarrow> outcome"
  sendAnalyticsEvent :: "AnalyticsEvent \<Rightarrow> outcome"

text \<open>
  The errors the function throws, one constructor for each \<^verbatim>\<open>throw\<close> (the two
  identity checks share a kind), the two awaited calls whose failure it passes on, and
  the error that a mail or analytics call throws before it returns, which nothing in the
  function catches.
\<close>

datatype identity_check = ClientReference | OrderOwner

datatype error =
  PaymentIncomplete
  | OrderIdNotFound
  | OrderNotFound
  | IdentityMismatch identity_check
  | UnsupportedCurrency string
  | AmountMismatch number number
  | RetrieveRejected
  | PromoIncrementRejected string
  | DispatchThrew string

subsection \<open>The function\<close>

definition metadata_field :: "Session \<Rightarrow> string \<Rightarrow> string option" where
  "metadata_field session k = (case metadata session of None \<Rightarrow> None | Some m \<Rightarrow> m k)"

text \<open>\<^verbatim>\<open>const sessionTotal = (session.amount_total || 0) / 100\<close>\<close>

definition sessionTotal :: "Session \<Rightarrow> number" where
  "sessionTotal session =
     num_div_by (or_zero (map_option (\<lambda>n. to_double (of_int n)) (amount_total session))) 100"

text \<open>\<^verbatim>\<open>const orderTotal = Number(order.totalAmount)\<close>\<close>

definition orderTotal :: "Order \<Rightarrow> number" where
  "orderTotal order = to_double (totalAmount order)"

text \<open>\<^verbatim>\<open>const currency = (session.currency || '').toLowerCase()\<close>\<close>

definition lower_currency :: "Session \<Rightarrow> string" where
  "lower_currency session = toLowerCase (or_else (currency session) [])"

text \<open>\<^verbatim>\<open>Math.abs(sessionTotal - orderTotal) > 0.01\<close>\<close>

definition amount_differs :: "Session \<Rightarrow> Order \<Rightarrow> bool" where
  "amount_differs session order =
     num_gt (num_abs (num_sub (sessionTotal session) (orderTotal order))) (to_double (1 / 100))"

text \<open>\<^verbatim>\<open>session.payment_method_types?.[0] || 'card'\<close>\<close>

definition first_method :: "Session \<Rightarrow> string" where
  "first_method session = (case payment_method_types session of
       None \<Rightarrow> ''card''
     | Some [] \<Rightarrow> ''card''
     | Some (m # _) \<Rightarrow> if m = [] then ''card'' else m)"

text \<open>The payment row of the nested \<^verbatim>\<open>create\<close>.\<close>

definition new_payment :: "string \<Rightarrow> Session \<Rightarrow> Payment" where
  "new_payment orderId session =
     \<lparr> p_orderId = orderId,
       stripePaymentId = payment_intent session,
       amount = sessionTotal session,
       p_currency = or_else (currency session) ''usd'',
       p_status = ''COMPLETED'',
       paymentMethod = first_method session \<rparr>"

text \<open>
  \<^verbatim>\<open>prisma.order.update\<close>: one write that sets status and timestamp of the order and
  adds the payment row. It returns the updated order.
\<close>

definition order_update :: "env \<Rightarrow> string \<Rightarrow> Session \<Rightarrow> Order \<Rightarrow> state \<Rightarrow> Order \<times> state" where
  "order_update e orderId session order st =
     (let updatedOrder = order\<lparr>status := ''PAID'', paidAt := Some (now e)\<rparr>
      in (updatedOrder,
          st\<lparr>orders := (orders st)(orderId \<mapsto> updatedOrder),
             payments := payments st @ [new_payment orderId session]\<rparr>))"

definition customerName :: "Order \<Rightarrow> string" where
  "customerName order = or_else (firstName (user order)) (email (user order))"

definition orderUrl :: "env \<Rightarrow> string \<Rightarrow> string" where
  "orderUrl e orderId =
     or_else (FRONTEND_URL e) ''http://localhost:5173'' @ ''/design?orderId='' @ orderId"

definition confirmation_mail :: "env \<Rightarrow> string \<Rightarrow> Order \<Rightarrow> ConfirmationMail" where
  "confirmation_mail e orderId order =
     \<lparr> c_customerName = customerName order,
       c_customerEmail = email (user order),
       c_orderNumber = orderNumber order,
       c_orderTotal = totalAmount order,
       c_tier = designTier order,
       c_itemCount = length (items order),
       c_orderUrl = orderUrl e orderId \<rparr>"

definition guide_mail :: "env \<Rightarrow> string \<Rightarrow> Order \<Rightarrow> GuideMail" where
  "guide_mail e orderId order =
     \<lparr> g_customerName = customerName order,
       g_customerEmail = email (user order),
       g_orderNumber = orderNumber order,
       g_orderUrl = orderUrl e orderId \<rparr>"

definition paid_event :: "string \<Rightarrow> Order \<Rightarrow> AnalyticsEvent" where
  "paid_event orderId order =
     \<lparr> event = ''order.paid'',
       a_order_id = orderId,
       a_order_number = orderNumber order,
       a_amount = totalAmount order,
       a_tier = designTier order,
       a_item_count = length (items order),
       a_country = or_else (case address order of None \<Rightarrow> None | Some a \<Rightarrow> country a) ''US'' \<rparr>"

text \<open>
  A returned promise with a \<^verbatim>\<open>.catch\<close> handler that writes to
  \<^verbatim>\<open>console.error\<close>: a rejection becomes a console line. A call that threw has
  returned no promise.
\<close>

definition caught :: "string \<Rightarrow> outcome \<Rightarrow> state \<Rightarrow> state" where
  "caught msg r st = (case r of Fulfilled \<Rightarrow> st
     | Rejected why \<Rightarrow> st\<lparr>console := console st @ [LogError msg why]\<rparr>
     | Threw _ \<Rightarrow> st)"

text \<open>A returned promise that is neither awaited nor given a handler.\<close>

definition dropped :: "outcome \<Rightarrow> state \<Rightarrow> state" where
  "dropped r st = (case r of Fulfilled \<Rightarrow> st
     | Rejected why \<Rightarrow> st\<lparr>unhandled := unhandled st @ [why]\<rparr>
     | Threw _ \<Rightarrow> st)"

definition call :: "dispatch \<Rightarrow> state \<Rightarrow> state" where
  "call d st = st\<lparr>outbox := outbox st @ [d]\<rparr>"

text \<open>
  The two mails and the analytics event, the last statements of the function. None of
  the three calls stands in a \<^verbatim>\<open>try\<close>: a call that throws before it returns
  leaves the function with that error, and the calls after it are not made. The two
  mails get their handler on the promise they return; the result of the analytics call
  is dropped. The console lines of the handlers are written after the function has
  returned; the state keeps them in the order of the calls.
\<close>

definition fan_out :: "env \<Rightarrow> string \<Rightarrow> Order \<Rightarrow> state \<Rightarrow> (error + unit) \<times> state" where
  "fan_out e orderId updatedOrder st =
     (let c = confirmation_mail e orderId updatedOrder;
          g = guide_mail e orderId updatedOrder;
          a = paid_event orderId updatedOrder;
          r1 = sendOrderConfirmation e c;
          st1 = call (SendOrderConfirmation c) st
      in case r1 of
           Threw why \<Rightarrow> (Inl (DispatchThrew why), st1)
         | _ \<Rightarrow>
           (let r2 = sendPromptGuide e g;
                st2 = caught ''Failed to send order confirmation email:'' r1
                        (call (SendPromptGuide g) st1)
            in case r2 of
                 Threw why \<Rightarrow> (Inl (DispatchThrew why), st2)
               | _ \<Rightarrow>
                 (let r3 = sendAnalyticsEvent e a;
                      st3 = caught ''Failed to send prompt guide email:'' r2
                              (call (SendAnalyticsEvent a) st2)
                  in case r3 of
                       Threw why \<Rightarrow> (Inl (DispatchThrew why), st3)
                     | _ \<Rightarrow> (Inr (), dropped r3 st3))))"

text \<open>
  From the update on: the update, the console line, the awaited promo increment (its
  rejection, like its throw, leaves the function as an error), then the fan-out.
\<close>

definition commit :: "env \<Rightarrow> string \<Rightarrow> Session \<Rightarrow> Order \<Rightarrow> state \<Rightarrow> (error + unit) \<times> state" where
  "commit e orderId session order st =
     (case order_update e orderId session order st of (updatedOrder, st1) \<Rightarrow>
        (let st2 = st1\<lparr>console := console st1 @ [Log (''? Order '' @ orderId @ '' marked as PAID'')]\<rparr>
         in if truthy (promoCodeId updatedOrder)
            then (let st3 = call (IncrementPromoUsage (the (promoCodeId updatedOrder))) st2
                  in case incrementPromoUsage e (the (promoCodeId updatedOrder)) of
                       Rejected why \<Rightarrow> (Inl (PromoIncrementRejected why), st3)
                     | Threw why \<Rightarrow> (Inl (PromoIncrementRejected why), st3)
                     | Fulfilled \<Rightarrow> fan_out e orderId updatedOrder st3)
            else fan_out e orderId updatedOrder st2))"

text \<open>The checks between the idempotency guard and the update, in the source's order.\<close>

definition reconcile :: "string \<Rightarrow> Session \<Rightarrow> Order \<Rightarrow> error option" where
  "reconcile orderId session order =
     (if truthy (client_reference_id session) \<and> client_reference_id session \<noteq> Some orderId
      then Some (IdentityMismatch ClientReference)
      else if truthy (metadata_field session ''userId'')
              \<and> metadata_field session ''userId'' \<noteq> Some (userId order)
      then Some (IdentityMismatch OrderOwner)
      else if lower_currency session \<noteq> [] \<and> lower_currency session \<noteq> ''usd''
      then Some (UnsupportedCurrency (lower_currency session))
      else if amount_differs session order
      then Some (AmountMismatch (orderTotal order) (sessionTotal session))
      else None)"

definition handleSuccessfulPayment :: "env \<Rightarrow> string \<Rightarrow> state \<Rightarrow> (error + unit) \<times> state" where
  "handleSuccessfulPayment e sessionId st =
     (case retrieve e sessionId of
        None \<Rightarrow> (Inl RetrieveRejected, st)
      | Some session \<Rightarrow>
          if payment_status session \<noteq> ''paid'' then (Inl PaymentIncomplete, st)
          else if \<not> truthy (metadata_field session ''orderId'') then (Inl OrderIdNotFound, st)
          else (let orderId = the (metadata_field session ''orderId'') in
            case orders st orderId of
              None \<Rightarrow> (Inl OrderNotFound, st)
            | Some order \<Rightarrow>
                if status order = ''PAID''
                then (Inr (), st\<lparr>console := console st @
                        [Log (''Order '' @ orderId @ '' already marked as PAID; skipping duplicate webhook.'')]\<rparr>)
                else (case reconcile orderId session order of
                        Some err \<Rightarrow> (Inl err, st)
                      | None \<Rightarrow> commit e orderId session order st)))"

subsection \<open>Vocabulary of the properties\<close>

text \<open>
  The session \<open>sessionId\<close> resolves to \<open>order\<close>: the provider returns a paid session
  whose metadata names an order that exists.
\<close>

definition resolves :: "env \<Rightarrow> string \<Rightarrow> state \<Rightarrow> Session \<Rightarrow> string \<Rightarrow> Order \<Rightarrow> bool" where
  "resolves e sessionId st session orderId order \<longleftrightarrow>
     retrieve e sessionId = Some session \<and> payment_status session = ''paid''
     \<and> metadata_field session ''orderId'' = Some orderId \<and> orderId \<noteq> []
     \<and> orders st orderId = Some order"

text \<open>The two identity checks pass: each field is absent or agrees with the order.\<close>

definition identity_matches :: "string \<Rightarrow> Session \<Rightarrow> Order \<Rightarrow> bool" where
  "identity_matches orderId session order \<longleftrightarrow>
     (truthy (client_reference_id session) \<longrightarrow> client_reference_id session = Some orderId)
     \<and> (truthy (metadata_field session ''userId'')
          \<longrightarrow> metadata_field session ''userId'' = Some (userId order))"

text \<open>The currency check passes.\<close>

definition currency_supported :: "Session \<Rightarrow> bool" where
  "currency_supported session \<longleftrightarrow>
     lower_currency session = [] \<or> lower_currency session = ''usd''"

text \<open>The six kinds of error thrown by the checks before the update.\<close>

fun guard_error :: "error \<Rightarrow> bool" where
  "guard_error PaymentIncomplete = True"
| "guard_error OrderIdNotFound = True"
| "guard_error OrderNotFound = True"
| "guard_error (IdentityMismatch _) = True"
| "guard_error (UnsupportedCurrency _) = True"
| "guard_error (AmountMismatch _ _) = True"
| "guard_error RetrieveRejected = False"
| "guard_error (PromoIncrementRejected _) = False"
| "guard_error (DispatchThrew _) = False"

text \<open>The call threw before it returned.\<close>

fun threw :: "outcome \<Rightarrow> bool" where
  "threw (Threw _) = True"
| "threw Fulfilled = False"
| "threw (Rejected _) = False"

definition paid_order :: "env \<Rightarrow> Order \<Rightarrow> Order" where
  "paid_order e order = order\<lparr>status := ''PAID'', paidAt := Some (now e)\<rparr>"

definition rejection_lines :: "string \<Rightarrow> outcome \<Rightarrow> console_line list" where
  "rejection_lines msg r =
     (case r of Fulfilled \<Rightarrow> [] | Rejected why \<Rightarrow> [LogError msg why] | Threw _ \<Rightarrow> [])"

definition rejection_reasons :: "outcome \<Rightarrow> string list" where
  "rejection_reasons r =
     (case r of Fulfilled \<Rightarrow> [] | Rejected why \<Rightarrow> [why] | Threw _ \<Rightarrow> [])"

text \<open>
  The difference the specification speaks of, in exact arithmetic: the session amount
  in minor units, zero when absent, divided by 100, against the order total.
\<close>

definition exact_difference :: "Session \<Rightarrow> Order \<Rightarrow> rat" where
  "exact_difference session order =
     \<bar>of_int (case amount_total session of None \<Rightarrow> 0 | Some n \<Rightarrow> n) / 100 - totalAmount order\<bar>"

text \<open>
  Amounts of everyday size: a session amount of at most \<open>10 ^ 11\<close> minor units and an
  order total of at most \<open>10 ^ 9\<close> major units, in absolute value.
\<close>

definition everyday_amounts :: "Session \<Rightarrow> Order \<Rightarrow> bool" where
  "everyday_amounts session order \<longleftrightarrow>
     (case amount_total session of None \<Rightarrow> True | Some n \<Rightarrow> \<bar>n\<bar> \<le> 10 ^ 11)
     \<and> \<bar>totalAmount order\<bar> \<le> 10 ^ 9"

text \<open>
  The payment-method tag as the specification words it: the first entry of the list,
  or the card tag when the list is absent or empty.
\<close>

definition spec_method :: "Session \<Rightarrow> string" where
  "spec_method session = (case payment_method_types session of
       None \<Rightarrow> ''card'' | Some [] \<Rightarrow> ''card'' | Some (m # _) \<Rightarrow> m)"

subsection \<open>Sample data\<close>

definition ada :: User where
  "ada = \<lparr> firstName = Some ''Ada'', email = ''ada@example.com'' \<rparr>"

definition order_pending :: Order where
  "order_pending = \<lparr> userId = ''u1'', status = ''PENDING'', totalAmount = 4999 / 100,
     promoCodeId = None, orderNumber = ''GPT-1001'', designTier = ''PREMIUM'', user = ada,
     items = [''item1''], address = None, paidAt = None \<rparr>"

definition session_paid :: Session where
  "session_paid = \<lparr> payment_status = ''paid'',
     metadata = Some [''orderId'' \<mapsto> ''o1'', ''userId'' \<mapsto> ''u1''],
     client_reference_id = Some ''o1'', amount_total = Some 4999, currency = Some ''usd'',
     payment_intent = Some ''pi_1'', payment_method_types = Some [''card''] \<rparr>"

text \<open>A provider that knows one session, and collaborators that all succeed.\<close>

definition world :: "Session \<Rightarrow> env" where
  "world session = \<lparr> retrieve = [''cs_1'' \<mapsto> session], now = 1700000000, FRONTEND_URL = None,
     incrementPromoUsage = (\<lambda>_. Fulfilled), sendOrderConfirmation = (\<lambda>_. Fulfilled),
     sendPromptGuide = (\<lambda>_. Fulfilled), sendAnalyticsEvent = (\<lambda>_. Fulfilled) \<rparr>"

text \<open>A database with one order and no payment.\<close>

definition store :: "Order \<Rightarrow> state" where
  "store order = \<lparr> orders = [''o1'' \<mapsto> order], payments = [], outbox = [], console = [],
     unhandled = [] \<rparr>"

section \<open>Properties\<close>

subsection \<open>Evaluation of powers of two\<close>

lemma pow2_code [code]:
  "pow2 k = (if k = 0 then 1 else if k < 0 then 1 / pow2 (- k)
     else (let h = pow2 (k div 2) in if even k then h * h else 2 * (h * h)))"
proof -
  have ev: "pow2 k = pow2 (k div 2) * pow2 (k div 2)" if "0 < k" "even k"
  proof -
    from that obtain j where j: "k = 2 * j" "0 < j" by (auto elim: evenE)
    then show ?thesis by (simp add: pow2_def nat_mult_distrib flip: power_add mult_2)
  qed
  have od: "pow2 k = 2 * (pow2 (k div 2) * pow2 (k div 2))" if "0 < k" "odd k"
  proof -
    from that obtain j where j: "k = 2 * j + 1" "0 \<le> j" by (auto elim!: oddE)
    then show ?thesis
      by (simp add: pow2_def nat_add_distrib nat_mult_distrib flip: power_add mult_2)
  qed
  show ?thesis using ev od by (auto simp: Let_def pow2_def)
qed

subsection \<open>Rounding\<close>

text \<open>
  The rounding to binary64 stays within half a unit in the last place of its argument.
  For an argument below \<open>2 ^ K\<close> in absolute value the result is finite and differs
  from the argument by at most \<open>2 ^ (K - 54)\<close>.
\<close>

lemma pow2_powi: "pow2 k = 2 powi k"
proof (cases "0 \<le> k")
  case True
  then show ?thesis by (simp add: pow2_def power_int_def)
next
  case False
  have "inverse (2::rat) ^ n = 1 / 2 ^ n" for n
    by (simp add: power_one_over)
  with False show ?thesis by (simp only: pow2_def power_int_def if_False)
qed


lemma pow2_pos [simp]: "0 < pow2 k"
  by (simp add: pow2_powi)

lemma pow2_add: "pow2 (a + b) = pow2 a * pow2 b"
  unfolding pow2_powi by (rule power_int_add) simp

lemma pow2_mono: "a \<le> b \<Longrightarrow> pow2 a \<le> pow2 b"
  unfolding pow2_powi by (rule power_int_increasing) simp_all

lemma pow2_less_cancel:
  assumes "pow2 a < pow2 b" shows "a < b"
proof (rule ccontr)
  assume "\<not> a < b"
  then have "b \<le> a" by simp
  then have "pow2 b \<le> pow2 a" by (rule pow2_mono)
  with assms show False by linarith
qed

lemma pow2_nat: "0 \<le> k \<Longrightarrow> pow2 k = 2 ^ nat k"
  by (simp add: pow2_def)

lemma pow2_1: "pow2 1 = 2"
  by (simp add: pow2_def)

lemma pow2_half: "pow2 (k - 1) = pow2 k / 2"
proof -
  have "pow2 k = pow2 (k - 1 + 1)" by simp
  also have "\<dots> = pow2 (k - 1) * pow2 1" by (rule pow2_add)
  finally have "pow2 k = pow2 (k - 1) * 2" unfolding pow2_1 .
  then show ?thesis by linarith
qed

lemma bitlen_bounds:
  "0 < n \<Longrightarrow> 0 < bitlen n \<and> 2 ^ nat (bitlen n - 1) \<le> n \<and> n < 2 ^ nat (bitlen n)"
proof (induction n rule: bitlen.induct)
  case (1 n)
  define m where "m = n div 2"
  have dm: "n = 2 * m + n mod 2" "0 \<le> n mod 2" "n mod 2 < 2"
    by (simp_all add: m_def)
  have b: "bitlen n = 1 + bitlen m"
    using "1.prems" unfolding m_def by (subst bitlen.simps) simp
  show ?case
  proof (cases "m = 0")
    case True
    with dm "1.prems" have "n = 1" by linarith
    then show ?thesis by (simp add: bitlen.simps)
  next
    case False
    with dm "1.prems" have pos: "0 < m" by linarith
    define c where "c = bitlen m"
    define P :: int where "P = 2 ^ nat (c - 1)"
    from "1.IH" "1.prems" pos
    have ih: "0 < c" "P \<le> m" "m < 2 ^ nat c"
      by (auto simp: c_def P_def m_def)
    have "nat c = Suc (nat (c - 1))" using ih(1) by simp
    then have Q: "(2::int) ^ nat c = 2 * P" by (simp add: P_def)
    have "nat (1 + c) = Suc (nat c)" using ih(1) by simp
    then have R: "(2::int) ^ nat (1 + c) = 2 * (2 * P)" by (simp add: Q)
    have S: "(2::int) ^ nat (1 + c - 1) = 2 * P" by (simp add: Q)
    have "0 < 1 + c" using ih(1) by simp
    moreover have "2 ^ nat (1 + c - 1) \<le> n"
      unfolding S using ih(2) dm by linarith
    moreover have "n < 2 ^ nat (1 + c)"
      unfolding R using ih(3) dm unfolding Q by linarith
    ultimately show ?thesis unfolding b c_def by blast
  qed
qed


lemma bitlen_pow2:
  assumes "0 < n"
  shows "pow2 (bitlen n - 1) \<le> of_int n" and "of_int n < pow2 (bitlen n)"
proof -
  from bitlen_bounds [OF assms]
  have b: "0 < bitlen n" "2 ^ nat (bitlen n - 1) \<le> n" "n < 2 ^ nat (bitlen n)" by auto
  have "(of_int (2 ^ nat (bitlen n - 1)) :: rat) \<le> of_int n"
    using b(2) by (simp only: of_int_le_iff)
  then show "pow2 (bitlen n - 1) \<le> of_int n"
    using b(1) by (simp add: pow2_nat)
  have "(of_int n :: rat) < of_int (2 ^ nat (bitlen n))"
    using b(3) by (simp only: of_int_less_iff)
  then show "of_int n < pow2 (bitlen n)"
    using b(1) by (simp add: pow2_nat)
qed

lemma exponent_bounds:
  assumes "x \<noteq> 0"
  shows "pow2 (exponent x) \<le> \<bar>x\<bar>" and "\<bar>x\<bar> < pow2 (exponent x + 1)"
proof -
  obtain p q where pq: "quotient_of x = (p, q)" by (cases "quotient_of x")
  have q: "0 < q" using pq by (rule quotient_of_denom_pos)
  have x: "x = of_int p / of_int q" using pq by (rule quotient_of_div)
  with assms have p: "0 < \<bar>p\<bar>" by auto
  define a where "a = bitlen \<bar>p\<bar>"
  define b where "b = bitlen q"
  define d where "d = a - b"
  define Q :: rat where "Q = of_int q"
  define P :: rat where "P = of_int \<bar>p\<bar>"
  have Qpos: "0 < Q" using q by (simp add: Q_def)
  have ax: "\<bar>x\<bar> * Q = P"
    unfolding x P_def Q_def using q by (simp add: abs_divide)
  have pa: "pow2 (a - 1) \<le> P" "P < pow2 a"
    using bitlen_pow2 [OF p] by (simp_all add: a_def P_def)
  have qb: "pow2 (b - 1) \<le> Q" "Q < pow2 b"
    using bitlen_pow2 [OF q] by (simp_all add: b_def Q_def)
  have "pow2 a = pow2 (d + 1 + (b - 1))" by (simp add: d_def)
  also have "\<dots> = pow2 (d + 1) * pow2 (b - 1)" by (rule pow2_add)
  also have "\<dots> \<le> pow2 (d + 1) * Q" using qb(1) by (simp add: mult_left_mono)
  finally have "\<bar>x\<bar> * Q < pow2 (d + 1) * Q" using pa(2) ax by linarith
  then have up: "\<bar>x\<bar> < pow2 (d + 1)" using Qpos by (simp add: mult_less_cancel_right)
  have "pow2 (d - 1) * Q < pow2 (d - 1) * pow2 b"
    using qb(2) by (simp add: mult_strict_left_mono)
  also have "\<dots> = pow2 (d - 1 + b)" by (rule pow2_add [symmetric])
  also have "\<dots> = pow2 (a - 1)" by (simp add: d_def)
  finally have "pow2 (d - 1) * Q < \<bar>x\<bar> * Q" using pa(1) ax by linarith
  then have lo: "pow2 (d - 1) < \<bar>x\<bar>" using Qpos by (simp add: mult_less_cancel_right)
  have e: "exponent x = (if pow2 d \<le> \<bar>x\<bar> then d else d - 1)"
    by (simp add: exponent_def pq Let_def d_def a_def b_def)
  show "pow2 (exponent x) \<le> \<bar>x\<bar>" using lo by (simp add: e)
  show "\<bar>x\<bar> < pow2 (exponent x + 1)" using up by (auto simp: e)
qed

lemma round_half_even_error: "\<bar>of_int (round_half_even y) - y\<bar> \<le> 1 / 2"
proof -
  have "of_int \<lfloor>y\<rfloor> \<le> y" "y < of_int \<lfloor>y\<rfloor> + 1" by linarith+
  then show ?thesis
    by (auto simp: round_half_even_def Let_def)
qed


lemma to_double_error:
  assumes "\<bar>x\<bar> < pow2 K" and "- 1021 \<le> K" and "K \<le> 1023"
  shows "\<exists>r. to_double x = Fin r \<and> \<bar>r - x\<bar> \<le> pow2 (K - 54)"
proof (cases "x = 0")
  case True
  have "0 \<le> pow2 (K - 54)" using pow2_pos [of "K - 54"] by linarith
  with True show ?thesis by (simp add: to_double_def)
next
  case False
  define e where "e = max (exponent x) (- 1022)"
  define ulp where "ulp = pow2 (e - 52)"
  define n where "n = round_half_even (x / ulp)"
  define r where "r = of_int n * ulp"
  have "pow2 (exponent x) < pow2 K"
    using exponent_bounds(1) [OF False] assms(1) by linarith
  then have "exponent x < K" by (rule pow2_less_cancel)
  then have eK: "e - 53 \<le> K - 54" using assms(2) by (simp add: e_def)
  have ulp_pos: "0 < ulp" by (simp add: ulp_def)
  have "r - x = (of_int n - x / ulp) * ulp"
    using ulp_pos by (simp add: r_def algebra_simps)
  then have "\<bar>r - x\<bar> = \<bar>of_int n - x / ulp\<bar> * ulp"
    using ulp_pos by (simp add: abs_mult)
  also have "\<dots> \<le> 1 / 2 * ulp"
    using round_half_even_error [of "x / ulp"] ulp_pos
    unfolding n_def by (intro mult_right_mono) simp_all
  also have "\<dots> = pow2 (e - 53)"
    using pow2_half [of "e - 52"] by (simp add: ulp_def)
  also have "\<dots> \<le> pow2 (K - 54)" using eK by (rule pow2_mono)
  finally have err: "\<bar>r - x\<bar> \<le> pow2 (K - 54)" .
  have fin: "\<not> (r \<noteq> 0 \<and> 1024 \<le> exponent r)"
  proof
    assume a: "r \<noteq> 0 \<and> 1024 \<le> exponent r"
    then have "pow2 1024 \<le> pow2 (exponent r)" by (intro pow2_mono) simp
    also have "\<dots> \<le> \<bar>r\<bar>" using a exponent_bounds(1) by blast
    finally have big: "pow2 1024 \<le> \<bar>r\<bar>" .
    have "pow2 (K - 54) \<le> pow2 K" by (rule pow2_mono) simp
    moreover have "pow2 (K + 1) = pow2 K * 2" using pow2_add [of K 1] by (simp add: pow2_1)
    moreover have "pow2 (K + 1) \<le> pow2 1024" using assms(3) by (intro pow2_mono) simp
    ultimately show False using big err assms(1) by linarith
  qed
  have "to_double x = Fin r"
    using False fin
    by (simp add: to_double_def Let_def e_def ulp_def n_def r_def)
  with err show ?thesis by blast
qed

subsection \<open>The stages of the function\<close>

lemma handle_resolved:
  assumes "resolves e sid st session oid order" "status order \<noteq> ''PAID''"
  shows "handleSuccessfulPayment e sid st =
     (case reconcile oid session order of
        Some err \<Rightarrow> (Inl err, st)
      | None \<Rightarrow> commit e oid session order st)"
  using assms by (simp add: resolves_def handleSuccessfulPayment_def truthy_def)


lemma example_resolves:
  assumes "payment_status s = ''paid''" "metadata_field s ''orderId'' = Some ''o1''"
  shows "resolves (world s) ''cs_1'' (store ord) s ''o1'' ord"
  using assms by (simp add: resolves_def world_def store_def)

lemma reconcile_None_iff:
  "reconcile oid s ord = None \<longleftrightarrow>
     identity_matches oid s ord \<and> currency_supported s \<and> \<not> amount_differs s ord"
  by (auto simp: reconcile_def identity_matches_def currency_supported_def)

lemma caught_fields [simp]:
  "orders (caught msg r st) = orders st"
  "payments (caught msg r st) = payments st"
  "outbox (caught msg r st) = outbox st"
  "unhandled (caught msg r st) = unhandled st"
  "console (caught msg r st) = console st @ rejection_lines msg r"
  by (simp_all add: caught_def rejection_lines_def split: outcome.splits)

lemma dropped_fields [simp]:
  "orders (dropped r st) = orders st"
  "payments (dropped r st) = payments st"
  "outbox (dropped r st) = outbox st"
  "console (dropped r st) = console st"
  "unhandled (dropped r st) = unhandled st @ rejection_reasons r"
  by (simp_all add: dropped_def rejection_reasons_def split: outcome.splits)

lemma call_fields [simp]:
  "orders (call d st) = orders st"
  "payments (call d st) = payments st"
  "outbox (call d st) = outbox st @ [d]"
  "console (call d st) = console st"
  "unhandled (call d st) = unhandled st"
  by (simp_all add: call_def)

lemma fan_out_tables [simp]:
  "orders (snd (fan_out e oid ord st)) = orders st"
  "payments (snd (fan_out e oid ord st)) = payments st"
  by (simp_all add: fan_out_def Let_def split: outcome.splits)

lemma fan_out_not_guard_error:
  "fst (fan_out e oid ord st) = Inl err \<Longrightarrow> \<not> guard_error err"
  by (auto simp: fan_out_def Let_def split: outcome.splits)

lemma fan_out_returns:
  assumes "\<not> threw (sendOrderConfirmation e (confirmation_mail e oid ord))"
    and "\<not> threw (sendPromptGuide e (guide_mail e oid ord))"
    and "\<not> threw (sendAnalyticsEvent e (paid_event oid ord))"
  shows "fst (fan_out e oid ord st) = Inr ()"
    and "outbox (snd (fan_out e oid ord st)) = outbox st @
       [SendOrderConfirmation (confirmation_mail e oid ord), SendPromptGuide (guide_mail e oid ord),
        SendAnalyticsEvent (paid_event oid ord)]"
    and "console (snd (fan_out e oid ord st)) = console st
       @ rejection_lines ''Failed to send order confirmation email:''
           (sendOrderConfirmation e (confirmation_mail e oid ord))
       @ rejection_lines ''Failed to send prompt guide email:''
           (sendPromptGuide e (guide_mail e oid ord))"
    and "unhandled (snd (fan_out e oid ord st)) = unhandled st
       @ rejection_reasons (sendAnalyticsEvent e (paid_event oid ord))"
  using assms by (auto simp: fan_out_def Let_def split: outcome.splits)

lemma fan_out_first_throws:
  assumes "sendOrderConfirmation e (confirmation_mail e oid ord) = Threw why"
  shows "fst (fan_out e oid ord st) = Inl (DispatchThrew why)"
    and "outbox (snd (fan_out e oid ord st)) = outbox st @
       [SendOrderConfirmation (confirmation_mail e oid ord)]"
    and "console (snd (fan_out e oid ord st)) = console st"
    and "unhandled (snd (fan_out e oid ord st)) = unhandled st"
  using assms by (simp_all add: fan_out_def Let_def)

lemma fan_out_second_throws:
  assumes "\<not> threw (sendOrderConfirmation e (confirmation_mail e oid ord))"
    and "sendPromptGuide e (guide_mail e oid ord) = Threw why"
  shows "fst (fan_out e oid ord st) = Inl (DispatchThrew why)"
    and "outbox (snd (fan_out e oid ord st)) = outbox st @
       [SendOrderConfirmation (confirmation_mail e oid ord), SendPromptGuide (guide_mail e oid ord)]"
    and "console (snd (fan_out e oid ord st)) = console st
       @ rejection_lines ''Failed to send order confirmation email:''
           (sendOrderConfirmation e (confirmation_mail e oid ord))"
    and "unhandled (snd (fan_out e oid ord st)) = unhandled st"
  using assms by (auto simp: fan_out_def Let_def split: outcome.splits)

lemma fan_out_third_throws:
  assumes "\<not> threw (sendOrderConfirmation e (confirmation_mail e oid ord))"
    and "\<not> threw (sendPromptGuide e (guide_mail e oid ord))"
    and "sendAnalyticsEvent e (paid_event oid ord) = Threw why"
  shows "fst (fan_out e oid ord st) = Inl (DispatchThrew why)"
    and "outbox (snd (fan_out e oid ord st)) = outbox st @
       [SendOrderConfirmation (confirmation_mail e oid ord), SendPromptGuide (guide_mail e oid ord),
        SendAnalyticsEvent (paid_event oid ord)]"
    and "console (snd (fan_out e oid ord st)) = console st
       @ rejection_lines ''Failed to send order confirmation email:''
           (sendOrderConfirmation e (confirmation_mail e oid ord))
       @ rejection_lines ''Failed to send prompt guide email:''
           (sendPromptGuide e (guide_mail e oid ord))"
    and "unhandled (snd (fan_out e oid ord st)) = unhandled st"
  using assms by (auto simp: fan_out_def Let_def split: outcome.splits)

lemma commit_tables:
  "orders (snd (commit e oid s ord st)) = (orders st)(oid \<mapsto> paid_order e ord)"
  "payments (snd (commit e oid s ord st)) = payments st @ [new_payment oid s]"
  by (simp_all add: commit_def order_update_def Let_def paid_order_def
      split: outcome.splits)

lemma commit_rejected:
  assumes "promoCodeId ord = Some promo" "promo \<noteq> []" "incrementPromoUsage e promo = Rejected why"
  shows "fst (commit e oid s ord st) = Inl (PromoIncrementRejected why)"
    and "outbox (snd (commit e oid s ord st)) = outbox st @ [IncrementPromoUsage promo]"
    and "console (snd (commit e oid s ord st))
          = console st @ [Log (''? Order '' @ oid @ '' marked as PAID'')]"
    and "unhandled (snd (commit e oid s ord st)) = unhandled st"
  using assms
  by (simp_all add: commit_def order_update_def Let_def truthy_def)

text \<open>The state the fan-out starts from, when the promo increment is not called or fulfils.\<close>

lemma commit_fulfilled:
  assumes "\<not> truthy (promoCodeId ord) \<or> incrementPromoUsage e (the (promoCodeId ord)) = Fulfilled"
  shows "commit e oid s ord st =
    fan_out e oid (paid_order e ord)
      ((if truthy (promoCodeId ord) then call (IncrementPromoUsage (the (promoCodeId ord))) else id)
        ((snd (order_update e oid s ord st))
           \<lparr>console := console st @ [Log (''? Order '' @ oid @ '' marked as PAID'')]\<rparr>))"
  using assms
  by (auto simp: commit_def order_update_def Let_def paid_order_def)

lemma commit_not_guard_error:
  "fst (commit e oid session ord st) = Inl err \<Longrightarrow> \<not> guard_error err"
  using fan_out_not_guard_error
  by (auto simp: commit_def order_update_def Let_def split: outcome.splits if_splits)

lemma world_commit_ok:
  "\<not> truthy (promoCodeId ord) \<Longrightarrow> fst (commit (world s) oid s' ord st) = Inr ()"
  by (simp add: commit_fulfilled fan_out_returns(1) world_def)

subsection \<open>Facts about the sample data\<close>

lemma toLowerCase_usd: "toLowerCase ''usd'' = ''usd''"
  by code_simp

lemma toLowerCase_eur: "toLowerCase ''eur'' = ''eur''"
  by code_simp

lemma differs_5100:
  "amount_total s = Some 5100 \<Longrightarrow> totalAmount ord = 4999 / 100 \<Longrightarrow> amount_differs s ord"
proof -
  have "num_gt (num_abs (num_sub (num_div_by (or_zero (Some (to_double 5100))) 100)
      (to_double (4999 / 100)))) (to_double (1 / 100))"
    by code_simp
  then show "amount_total s = Some 5100 \<Longrightarrow> totalAmount ord = 4999 / 100 \<Longrightarrow> amount_differs s ord"
    by (simp only: amount_differs_def sessionTotal_def orderTotal_def option.map of_int_numeral simp_thms)
qed

lemma agrees_4999:
  "amount_total s = Some 4999 \<Longrightarrow> totalAmount ord = 4999 / 100 \<Longrightarrow> \<not> amount_differs s ord"
proof -
  have "\<not> num_gt (num_abs (num_sub (num_div_by (or_zero (Some (to_double 4999))) 100)
      (to_double (4999 / 100)))) (to_double (1 / 100))"
    by code_simp
  then show "amount_total s = Some 4999 \<Longrightarrow> totalAmount ord = 4999 / 100 \<Longrightarrow> \<not> amount_differs s ord"
    by (simp only: amount_differs_def sessionTotal_def orderTotal_def option.map of_int_numeral simp_thms)
qed

lemma differs_101:
  "amount_total s = Some 101 \<Longrightarrow> totalAmount ord = 1 \<Longrightarrow> amount_differs s ord"
proof -
  have "num_gt (num_abs (num_sub (num_div_by (or_zero (Some (to_double 101))) 100)
      (to_double 1))) (to_double (1 / 100))"
    by code_simp
  then show "amount_total s = Some 101 \<Longrightarrow> totalAmount ord = 1 \<Longrightarrow> amount_differs s ord"
    by (simp only: amount_differs_def sessionTotal_def orderTotal_def option.map of_int_numeral simp_thms)
qed

lemma agrees_5001:
  "amount_total s = Some 5001 \<Longrightarrow> totalAmount ord = 50 \<Longrightarrow> \<not> amount_differs s ord"
proof -
  have "\<not> num_gt (num_abs (num_sub (num_div_by (or_zero (Some (to_double 5001))) 100)
      (to_double 50))) (to_double (1 / 100))"
    by code_simp
  then show "amount_total s = Some 5001 \<Longrightarrow> totalAmount ord = 50 \<Longrightarrow> \<not> amount_differs s ord"
    by (simp only: amount_differs_def sessionTotal_def orderTotal_def option.map of_int_numeral simp_thms)
qed

lemma sessionTotal_5100: "amount_total s = Some 5100 \<Longrightarrow> sessionTotal s = Fin 51"
proof -
  have "num_div_by (or_zero (Some (to_double 5100))) 100 = Fin 51"
    by code_simp
  then show "amount_total s = Some 5100 \<Longrightarrow> sessionTotal s = Fin 51"
    by (simp only: sessionTotal_def option.map of_int_numeral)
qed

lemma sessionTotal_absent:
  "amount_total s = None \<or> amount_total s = Some 0 \<Longrightarrow> sessionTotal s = Fin 0"
  by (auto simp: sessionTotal_def or_zero_def to_double_def)

lemma absent_near_cent:
  "amount_total s = None \<Longrightarrow> totalAmount ord = 1 / 100 + 1 / 10 ^ 18 \<Longrightarrow> \<not> amount_differs s ord"
proof -
  have "\<not> num_gt (num_abs (num_sub (Fin 0) (to_double (1 / 100 + 1 / 10 ^ 18)))) (to_double (1 / 100))"
    by code_simp
  then show "amount_total s = None \<Longrightarrow> totalAmount ord = 1 / 100 + 1 / 10 ^ 18 \<Longrightarrow> \<not> amount_differs s ord"
    using sessionTotal_absent [of s]
    by (simp only: amount_differs_def orderTotal_def simp_thms)
qed

lemma sample_identity:
  "client_reference_id s = Some ''o1'' \<Longrightarrow> metadata_field s ''userId'' = Some ''u1''
   \<Longrightarrow> userId ord = ''u1'' \<Longrightarrow> identity_matches ''o1'' s ord"
  by (simp add: identity_matches_def)

lemma sample_currency: "currency s = Some ''usd'' \<Longrightarrow> currency_supported s"
  by (simp add: currency_supported_def lower_currency_def or_else_def toLowerCase_usd)

subsection \<open>The tolerance and exact amounts\<close>

text \<open>
  For amounts of everyday size the value the function compares with the tolerance is
  within a millionth of the exact difference.
\<close>

lemma double_cent: "to_double (1 / 100) = Fin (5764607523034235 / 576460752303423488)"
  by code_simp

lemma amount_differs_bounds:
  assumes "everyday_amounts s ord"
  shows "\<exists>d. amount_differs s ord = (5764607523034235 / 576460752303423488 < \<bar>d\<bar>)
     \<and> \<bar>d - (of_int (case amount_total s of None \<Rightarrow> 0 | Some n \<Rightarrow> n) / 100 - totalAmount ord)\<bar>
         \<le> 1 / 10 ^ 6"
proof -
  define n where "n = (case amount_total s of None \<Rightarrow> 0 | Some n \<Rightarrow> n)"
  define t where "t = totalAmount ord"
  have nb: "\<bar>rat_of_int n\<bar> \<le> 100000000000"
  proof -
    have "\<bar>n\<bar> \<le> 10 ^ 11"
      using assms by (auto simp: everyday_amounts_def n_def split: option.splits)
    then have "rat_of_int \<bar>n\<bar> \<le> rat_of_int (10 ^ 11)" by (simp only: of_int_le_iff)
    then show ?thesis by simp
  qed
  have tb: "\<bar>t\<bar> \<le> 1000000000" using assms by (simp add: everyday_amounts_def t_def)
  have p37: "pow2 37 = 137438953472" and p31: "pow2 31 = 2147483648"
    and p30: "pow2 30 = 1073741824" and p32: "pow2 32 = 4294967296"
    by (simp_all add: pow2_def)
  have e17: "pow2 (37 - 54) = 1 / 131072" and e23: "pow2 (31 - 54) = 1 / 8388608"
    and e24: "pow2 (30 - 54) = 1 / 16777216" and e22: "pow2 (32 - 54) = 1 / 4194304"
    by (simp_all add: pow2_def)
  obtain a where a: "or_zero (map_option (\<lambda>n. to_double (of_int n)) (amount_total s)) = Fin a"
    "\<bar>a - of_int n\<bar> \<le> 1 / 131072"
  proof (cases "amount_total s")
    case None
    then show ?thesis using that [of 0] by (simp add: or_zero_def n_def)
  next
    case (Some m)
    then have m: "m = n" by (simp add: n_def)
    have "\<bar>rat_of_int n\<bar> < pow2 37" using nb unfolding p37 by linarith
    from to_double_error [OF this] obtain a'
      where "to_double (of_int n) = Fin a'" "\<bar>a' - of_int n\<bar> \<le> pow2 (37 - 54)"
      by auto
    then show ?thesis using that [of a'] Some m unfolding e17 by (simp add: or_zero_def)
  qed
  have "\<bar>a / 100\<bar> < pow2 31" using a(2) nb unfolding p31 by (simp add: abs_if split: if_splits)
  from to_double_error [OF this] obtain st
    where st: "to_double (a / 100) = Fin st" "\<bar>st - a / 100\<bar> \<le> 1 / 8388608"
    unfolding e23 by auto
  have "\<bar>t\<bar> < pow2 30" using tb unfolding p30 by linarith
  from to_double_error [OF this] obtain ot
    where ot: "to_double t = Fin ot" "\<bar>ot - t\<bar> \<le> 1 / 16777216"
    unfolding e24 by auto
  have "\<bar>st - ot\<bar> < pow2 32"
    using st(2) ot(2) a(2) nb tb unfolding p32 by (simp add: abs_if split: if_splits)
  from to_double_error [OF this] obtain d
    where d: "to_double (st - ot) = Fin d" "\<bar>d - (st - ot)\<bar> \<le> 1 / 4194304"
    unfolding e22 by auto
  have "amount_differs s ord = (5764607523034235 / 576460752303423488 < \<bar>d\<bar>)"
    by (simp add: amount_differs_def sessionTotal_def orderTotal_def a(1) st(1) ot(1) d(1)
        double_cent flip: t_def)
  moreover have "\<bar>d - (of_int n / 100 - t)\<bar> \<le> 1 / 10 ^ 6"
    using d(2) st(2) ot(2) a(2) by (simp add: abs_if split: if_splits)
  ultimately show ?thesis unfolding n_def t_def by blast
qed

lemma far_amounts_differ:
  assumes "everyday_amounts s ord" and "101 / 10000 \<le> exact_difference s ord"
  shows "amount_differs s ord"
proof -
  from amount_differs_bounds [OF assms(1)] obtain d
    where d: "amount_differs s ord = (5764607523034235 / 576460752303423488 < \<bar>d\<bar>)"
      "\<bar>d - (of_int (case amount_total s of None \<Rightarrow> 0 | Some n \<Rightarrow> n) / 100 - totalAmount ord)\<bar>
         \<le> 1 / 10 ^ 6"
    by blast
  show ?thesis
    unfolding d(1) using d(2) assms(2)
    by (simp add: exact_difference_def abs_if split: if_splits)
qed

lemma near_amounts_agree:
  assumes "everyday_amounts s ord" and "exact_difference s ord \<le> 99 / 10000"
  shows "\<not> amount_differs s ord"
proof -
  from amount_differs_bounds [OF assms(1)] obtain d
    where d: "amount_differs s ord = (5764607523034235 / 576460752303423488 < \<bar>d\<bar>)"
      "\<bar>d - (of_int (case amount_total s of None \<Rightarrow> 0 | Some n \<Rightarrow> n) / 100 - totalAmount ord)\<bar>
         \<le> 1 / 10 ^ 6"
    by blast
  show ?thesis
    unfolding d(1) using d(2) assms(2)
    by (simp add: exact_difference_def abs_if split: if_splits)
qed

subsection \<open>The status gate\<close>

text \<open>
  Claim C7. When the retrieved session's payment status is not \<open>paid\<close>, the function
  throws the payment-incomplete error and leaves the whole state as it was: no table, no
  collaborator and no console line is touched, whatever the state of the order.
\<close>

theorem unpaid_session_fails:
  assumes "retrieve e sessionId = Some session" and "payment_status session \<noteq> ''paid''"
  shows "handleSuccessfulPayment e sessionId st = (Inl PaymentIncomplete, st)"
  using assms by (simp add: handleSuccessfulPayment_def)

theorem unpaid_session_fails_witness:
  "retrieve (world (session_paid\<lparr>payment_status := ''unpaid''\<rparr>)) ''cs_1''
     = Some (session_paid\<lparr>payment_status := ''unpaid''\<rparr>)
   \<and> payment_status (session_paid\<lparr>payment_status := ''unpaid''\<rparr>) \<noteq> ''paid''
   \<and> handleSuccessfulPayment (world (session_paid\<lparr>payment_status := ''unpaid''\<rparr>)) ''cs_1''
        (store order_pending) = (Inl PaymentIncomplete, store order_pending)"
  using unpaid_session_fails [of "world (session_paid\<lparr>payment_status := ''unpaid''\<rparr>)" "''cs_1''"
      "session_paid\<lparr>payment_status := ''unpaid''\<rparr>" "store order_pending"]
  by (simp add: world_def)

subsection \<open>Failures before the update\<close>

lemma sample_mismatch_5100:
  "handleSuccessfulPayment (world (session_paid\<lparr>amount_total := Some 5100\<rparr>)) ''cs_1''
      (store order_pending)
   = (Inl (AmountMismatch (to_double (4999 / 100)) (Fin 51)), store order_pending)"
proof -
  let ?s = "session_paid\<lparr>amount_total := Some 5100\<rparr>"
  have r: "resolves (world ?s) ''cs_1'' (store order_pending) ?s ''o1'' order_pending"
    by (rule example_resolves) (simp_all add: session_paid_def metadata_field_def)
  have np: "status order_pending \<noteq> ''PAID''" by (simp add: order_pending_def)
  have i: "identity_matches ''o1'' ?s order_pending"
    by (rule sample_identity) (simp_all add: session_paid_def metadata_field_def order_pending_def)
  have c: "currency_supported ?s" by (rule sample_currency) (simp add: session_paid_def)
  have d: "amount_differs ?s order_pending"
    by (rule differs_5100) (simp_all add: order_pending_def)
  have t: "sessionTotal ?s = Fin 51" by (rule sessionTotal_5100) simp
  have o: "orderTotal order_pending = to_double (4999 / 100)"
    by (simp add: orderTotal_def order_pending_def)
  have "reconcile ''o1'' ?s order_pending = Some (AmountMismatch (to_double (4999 / 100)) (Fin 51))"
    using i c d t o
    by (simp add: reconcile_def identity_matches_def currency_supported_def)
  with handle_resolved [OF r np] show ?thesis by simp
qed

text \<open>
  Claim C2. Whenever the function fails with one of the six kinds of error of its checks
  (payment incomplete, order identifier missing, order missing, identity mismatch,
  unsupported currency, amount mismatch), the state it leaves is the state it found:
  the order keeps its status and no payment row is created.
\<close>

theorem guard_failure_leaves_state:
  assumes "handleSuccessfulPayment e sessionId st = (Inl err, st')" and "guard_error err"
  shows "st' = st"
proof (cases "\<exists>session orderId order. resolves e sessionId st session orderId order
    \<and> status order \<noteq> ''PAID''")
  case True
  then obtain session orderId order
    where r: "resolves e sessionId st session orderId order" "status order \<noteq> ''PAID''"
    by blast
  show ?thesis
  proof (cases "reconcile orderId session order")
    case None
    with handle_resolved [OF r] assms(1)
    have "commit e orderId session order st = (Inl err, st')" by simp
    then have "fst (commit e orderId session order st) = Inl err" by simp
    with commit_not_guard_error assms(2) show ?thesis by blast
  next
    case (Some err')
    with handle_resolved [OF r] assms(1) show ?thesis by simp
  qed
next
  case False
  with assms(1) show ?thesis
    by (auto simp: handleSuccessfulPayment_def resolves_def truthy_def Let_def
        split: option.splits if_splits)
qed

theorem guard_failure_leaves_state_witness:
  "handleSuccessfulPayment (world (session_paid\<lparr>amount_total := Some 5100\<rparr>)) ''cs_1''
      (store order_pending)
     = (Inl (AmountMismatch (to_double (4999 / 100)) (Fin 51)), store order_pending)
   \<and> guard_error (AmountMismatch (to_double (4999 / 100)) (Fin 51))
   \<and> store order_pending = store order_pending"
  using sample_mismatch_5100
    guard_failure_leaves_state [OF sample_mismatch_5100]
  by simp

subsection \<open>The identity checks\<close>

text \<open>
  Claim C8. For a resolved order that is not yet paid: when the session carries a client
  reference that is not the order's identifier, or its metadata carries a user identifier
  that is not the order's owner, the function fails with the identity-mismatch error and
  the state is untouched. A check whose field is absent (null, undefined or empty) is
  skipped: it is not the reason of a failure.
\<close>

theorem identity_mismatch_fails:
  assumes "resolves e sessionId st session orderId order" and "status order \<noteq> ''PAID''"
  shows "((truthy (client_reference_id session) \<and> client_reference_id session \<noteq> Some orderId)
          \<or> (truthy (metadata_field session ''userId'')
              \<and> metadata_field session ''userId'' \<noteq> Some (userId order))
        \<longrightarrow> (\<exists>c. handleSuccessfulPayment e sessionId st = (Inl (IdentityMismatch c), st)))
      \<and> (\<not> truthy (client_reference_id session)
        \<longrightarrow> fst (handleSuccessfulPayment e sessionId st) \<noteq> Inl (IdentityMismatch ClientReference))
      \<and> (\<not> truthy (metadata_field session ''userId'')
        \<longrightarrow> fst (handleSuccessfulPayment e sessionId st) \<noteq> Inl (IdentityMismatch OrderOwner))"
proof -
  have no: "fst (commit e orderId session order st) \<noteq> Inl (IdentityMismatch c)" for c
    using commit_not_guard_error [of e orderId session order st "IdentityMismatch c"] by auto
  show ?thesis
    unfolding handle_resolved [OF assms]
    using no by (auto simp: reconcile_def split: option.splits if_splits)
qed

theorem identity_mismatch_fails_witness:
  "resolves (world (session_paid\<lparr>client_reference_id := Some ''o2''\<rparr>)) ''cs_1'' (store order_pending)
      (session_paid\<lparr>client_reference_id := Some ''o2''\<rparr>) ''o1'' order_pending
   \<and> status order_pending \<noteq> ''PAID''
   \<and> truthy (client_reference_id (session_paid\<lparr>client_reference_id := Some ''o2''\<rparr>))
   \<and> client_reference_id (session_paid\<lparr>client_reference_id := Some ''o2''\<rparr>) \<noteq> Some ''o1''
   \<and> (\<exists>c. handleSuccessfulPayment (world (session_paid\<lparr>client_reference_id := Some ''o2''\<rparr>))
          ''cs_1'' (store order_pending) = (Inl (IdentityMismatch c), store order_pending))
   \<and> \<not> truthy (client_reference_id (session_paid\<lparr>client_reference_id := None\<rparr>))
   \<and> fst (handleSuccessfulPayment (world (session_paid\<lparr>client_reference_id := None\<rparr>))
          ''cs_1'' (store order_pending)) \<noteq> Inl (IdentityMismatch ClientReference)"
proof -
  let ?a = "session_paid\<lparr>client_reference_id := Some ''o2''\<rparr>"
  let ?b = "session_paid\<lparr>client_reference_id := None\<rparr>"
  have ra: "resolves (world ?a) ''cs_1'' (store order_pending) ?a ''o1'' order_pending"
    by (rule example_resolves) (simp_all add: session_paid_def metadata_field_def)
  have rb: "resolves (world ?b) ''cs_1'' (store order_pending) ?b ''o1'' order_pending"
    by (rule example_resolves) (simp_all add: session_paid_def metadata_field_def)
  have np: "status order_pending \<noteq> ''PAID''" by (simp add: order_pending_def)
  show ?thesis
    using ra np identity_mismatch_fails [OF ra np] identity_mismatch_fails [OF rb np]
    by (simp add: truthy_def)
qed

subsection \<open>The currency check\<close>

text \<open>
  Claim C6, amended. For a resolved order that is not yet paid and a session that passes
  the two identity checks: when the session's currency is present and not empty and its
  lower-case form is not \<open>usd\<close>, the function fails with the unsupported-currency error,
  carrying that lower-case form, and the state is untouched; when the currency is absent
  or empty the function does not fail with that error. The identity checks come first in
  the source, so a session that fails them gets their error whatever its currency.
\<close>

theorem currency_check:
  assumes "resolves e sessionId st session orderId order" and "status order \<noteq> ''PAID''"
    and "identity_matches orderId session order"
  shows "(truthy (currency session) \<and> toLowerCase (the (currency session)) \<noteq> ''usd''
          \<longrightarrow> handleSuccessfulPayment e sessionId st
              = (Inl (UnsupportedCurrency (toLowerCase (the (currency session)))), st))
       \<and> (\<not> truthy (currency session)
          \<longrightarrow> (\<forall>c. fst (handleSuccessfulPayment e sessionId st) \<noteq> Inl (UnsupportedCurrency c)))"
proof -
  have no: "fst (commit e orderId session order st) \<noteq> Inl (UnsupportedCurrency c)" for c
    using commit_not_guard_error [of e orderId session order st "UnsupportedCurrency c"] by auto
  have low: "lower_currency session = toLowerCase (the (currency session))
      \<and> lower_currency session \<noteq> []" if "truthy (currency session)"
    using that by (auto simp: lower_currency_def truthy_def or_else_def toLowerCase_def
        split: option.splits)
  have absent: "lower_currency session = []" if "\<not> truthy (currency session)"
    using that by (auto simp: lower_currency_def truthy_def or_else_def toLowerCase_def
        split: option.splits)
  show ?thesis
    unfolding handle_resolved [OF assms(1,2)]
    using no low absent assms(3)
    by (auto simp: reconcile_def identity_matches_def split: option.splits if_splits)
qed

theorem currency_check_witness:
  "resolves (world (session_paid\<lparr>currency := Some ''eur''\<rparr>)) ''cs_1'' (store order_pending)
      (session_paid\<lparr>currency := Some ''eur''\<rparr>) ''o1'' order_pending
   \<and> status order_pending \<noteq> ''PAID''
   \<and> identity_matches ''o1'' (session_paid\<lparr>currency := Some ''eur''\<rparr>) order_pending
   \<and> truthy (currency (session_paid\<lparr>currency := Some ''eur''\<rparr>))
   \<and> toLowerCase (the (currency (session_paid\<lparr>currency := Some ''eur''\<rparr>))) \<noteq> ''usd''
   \<and> handleSuccessfulPayment (world (session_paid\<lparr>currency := Some ''eur''\<rparr>)) ''cs_1''
        (store order_pending) = (Inl (UnsupportedCurrency ''eur''), store order_pending)
   \<and> \<not> truthy (currency (session_paid\<lparr>currency := None\<rparr>))
   \<and> fst (handleSuccessfulPayment (world (session_paid\<lparr>currency := None\<rparr>)) ''cs_1''
        (store order_pending)) \<noteq> Inl (UnsupportedCurrency ''eur'')"
proof -
  let ?a = "session_paid\<lparr>currency := Some ''eur''\<rparr>"
  let ?b = "session_paid\<lparr>currency := None\<rparr>"
  have ra: "resolves (world ?a) ''cs_1'' (store order_pending) ?a ''o1'' order_pending"
    by (rule example_resolves) (simp_all add: session_paid_def metadata_field_def)
  have rb: "resolves (world ?b) ''cs_1'' (store order_pending) ?b ''o1'' order_pending"
    by (rule example_resolves) (simp_all add: session_paid_def metadata_field_def)
  have np: "status order_pending \<noteq> ''PAID''" by (simp add: order_pending_def)
  have ia: "identity_matches ''o1'' ?a order_pending"
    by (rule sample_identity) (simp_all add: session_paid_def metadata_field_def order_pending_def)
  have ib: "identity_matches ''o1'' ?b order_pending"
    by (rule sample_identity) (simp_all add: session_paid_def metadata_field_def order_pending_def)
  show ?thesis
    using ra np ia currency_check [OF ra np ia] currency_check [OF rb np ib]
    by (simp add: truthy_def toLowerCase_eur)
qed

text \<open>
  The claim as first stated asks for the unsupported-currency error for every session that
  reaches the checks. A session in euros whose client reference names another order is
  stopped by the identity check.
\<close>

theorem currency_check_counterexample:
  "currency (session_paid\<lparr>currency := Some ''eur'', client_reference_id := Some ''o2''\<rparr>) = Some ''eur''
   \<and> toLowerCase ''eur'' \<noteq> ''usd''
   \<and> resolves (world (session_paid\<lparr>currency := Some ''eur'', client_reference_id := Some ''o2''\<rparr>))
        ''cs_1'' (store order_pending)
        (session_paid\<lparr>currency := Some ''eur'', client_reference_id := Some ''o2''\<rparr>) ''o1'' order_pending
   \<and> status order_pending = ''PENDING''
   \<and> handleSuccessfulPayment
        (world (session_paid\<lparr>currency := Some ''eur'', client_reference_id := Some ''o2''\<rparr>))
        ''cs_1'' (store order_pending)
      = (Inl (IdentityMismatch ClientReference), store order_pending)"
proof -
  let ?s = "session_paid\<lparr>currency := Some ''eur'', client_reference_id := Some ''o2''\<rparr>"
  have r: "resolves (world ?s) ''cs_1'' (store order_pending) ?s ''o1'' order_pending"
    by (rule example_resolves) (simp_all add: session_paid_def metadata_field_def)
  have np: "status order_pending \<noteq> ''PAID''" by (simp add: order_pending_def)
  have "reconcile ''o1'' ?s order_pending = Some (IdentityMismatch ClientReference)"
    by (simp add: reconcile_def truthy_def)
  with handle_resolved [OF r np] r show ?thesis
    by (simp add: toLowerCase_eur order_pending_def)
qed

subsection \<open>The update\<close>

lemma sample_commits:
  assumes "payment_status s = ''paid''" "metadata_field s ''orderId'' = Some ''o1''"
    "status ord \<noteq> ''PAID''" "identity_matches ''o1'' s ord" "currency_supported s"
    "\<not> amount_differs s ord"
  shows "handleSuccessfulPayment (world s) ''cs_1'' (store ord) = commit (world s) ''o1'' s ord (store ord)"
proof -
  have r: "resolves (world s) ''cs_1'' (store ord) s ''o1'' ord"
    using assms(1,2) by (rule example_resolves)
  have "reconcile ''o1'' s ord = None"
    using assms(4-6) by (simp add: reconcile_None_iff)
  with handle_resolved [OF r assms(3)] show ?thesis by simp
qed

lemma sample_empty_method:
  "handleSuccessfulPayment (world (session_paid\<lparr>payment_method_types := Some [[]]\<rparr>)) ''cs_1''
      (store order_pending)
   = commit (world (session_paid\<lparr>payment_method_types := Some [[]]\<rparr>)) ''o1''
      (session_paid\<lparr>payment_method_types := Some [[]]\<rparr>) order_pending (store order_pending)"
  by (rule sample_commits)
    (simp_all add: session_paid_def metadata_field_def order_pending_def
      sample_identity sample_currency agrees_4999)

lemma sample_succeeds:
  "handleSuccessfulPayment (world session_paid) ''cs_1'' (store order_pending)
   = commit (world session_paid) ''o1'' session_paid order_pending (store order_pending)"
  by (rule sample_commits)
    (simp_all add: session_paid_def metadata_field_def order_pending_def
      sample_identity sample_currency agrees_4999)

lemma sample_commit_ok:
  "fst (commit (world s) ''o1'' s order_pending st) = Inr ()"
  by (rule world_commit_ok) (simp add: truthy_def order_pending_def)

text \<open>
  Claim C9, amended. When the function succeeds on a resolved order that was not yet
  paid, the state it leaves has that order with status \<open>PAID\<close> and the current time as
  paid-timestamp, and exactly one payment row more than before. The row carries the
  session's payment intent, the session total divided by 100 (as a binary64 number), the
  session's currency as it was sent, or \<open>usd\<close> when it is absent or empty, the status
  \<open>COMPLETED\<close>, and as method the first entry of the session's method list when that
  entry is a non-empty string, \<open>card\<close> otherwise: when the list is absent or empty, and
  also when its first entry is the empty string.
\<close>

theorem commit_effect:
  assumes "resolves e sessionId st session orderId order" and "status order \<noteq> ''PAID''"
    and "fst (handleSuccessfulPayment e sessionId st) = Inr ()"
  shows "orders (snd (handleSuccessfulPayment e sessionId st))
           = (orders st)(orderId \<mapsto> order\<lparr>status := ''PAID'', paidAt := Some (now e)\<rparr>)
       \<and> payments (snd (handleSuccessfulPayment e sessionId st))
           = payments st @
             [\<lparr> p_orderId = orderId,
                stripePaymentId = payment_intent session,
                amount = sessionTotal session,
                p_currency = (if truthy (currency session) then the (currency session) else ''usd''),
                p_status = ''COMPLETED'',
                paymentMethod = (case payment_method_types session of
                    None \<Rightarrow> ''card''
                  | Some [] \<Rightarrow> ''card''
                  | Some (m # _) \<Rightarrow> if m = [] then ''card'' else m) \<rparr>]"
proof (cases "reconcile orderId session order")
  case None
  have "new_payment orderId session =
      \<lparr> p_orderId = orderId, stripePaymentId = payment_intent session,
        amount = sessionTotal session,
        p_currency = (if truthy (currency session) then the (currency session) else ''usd''),
        p_status = ''COMPLETED'',
        paymentMethod = (case payment_method_types session of
            None \<Rightarrow> ''card'' | Some [] \<Rightarrow> ''card''
          | Some (m # _) \<Rightarrow> if m = [] then ''card'' else m) \<rparr>"
    by (auto simp: new_payment_def first_method_def or_else_def truthy_def split: option.splits)
  with None show ?thesis
    unfolding handle_resolved [OF assms(1,2)]
    by (simp add: commit_tables paid_order_def)
next
  case (Some err)
  with assms(3) show ?thesis
    unfolding handle_resolved [OF assms(1,2)] by simp
qed

theorem commit_effect_witness:
  "resolves (world session_paid) ''cs_1'' (store order_pending) session_paid ''o1'' order_pending
   \<and> status order_pending \<noteq> ''PAID''
   \<and> fst (handleSuccessfulPayment (world session_paid) ''cs_1'' (store order_pending)) = Inr ()
   \<and> orders (snd (handleSuccessfulPayment (world session_paid) ''cs_1'' (store order_pending))) ''o1''
       = Some (order_pending\<lparr>status := ''PAID'', paidAt := Some 1700000000\<rparr>)
   \<and> payments (snd (handleSuccessfulPayment (world session_paid) ''cs_1'' (store order_pending)))
       = [\<lparr> p_orderId = ''o1'', stripePaymentId = Some ''pi_1'', amount = sessionTotal session_paid,
            p_currency = ''usd'', p_status = ''COMPLETED'', paymentMethod = ''card'' \<rparr>]"
proof -
  have r: "resolves (world session_paid) ''cs_1'' (store order_pending) session_paid ''o1'' order_pending"
    by (rule example_resolves) (simp_all add: session_paid_def metadata_field_def)
  have np: "status order_pending \<noteq> ''PAID''" by (simp add: order_pending_def)
  have ok: "fst (handleSuccessfulPayment (world session_paid) ''cs_1'' (store order_pending)) = Inr ()"
    by (simp add: sample_succeeds sample_commit_ok)
  have f: "payment_intent session_paid = Some ''pi_1''" "currency session_paid = Some ''usd''"
    "payment_method_types session_paid = Some [''card'']"
    by (simp_all add: session_paid_def)
  show ?thesis
    using r np ok commit_effect [OF r np ok]
    by (simp add: f truthy_def store_def world_def)
qed

text \<open>
  The claim as first stated takes the first entry of every non-empty list. A list whose
  first entry is the empty string gives the method \<open>card\<close>, since the empty string is
  falsy.
\<close>

theorem commit_effect_counterexample:
  "fst (handleSuccessfulPayment (world (session_paid\<lparr>payment_method_types := Some [[]]\<rparr>)) ''cs_1''
      (store order_pending)) = Inr ()
   \<and> map paymentMethod (payments (snd (handleSuccessfulPayment
       (world (session_paid\<lparr>payment_method_types := Some [[]]\<rparr>)) ''cs_1'' (store order_pending))))
     = [''card'']
   \<and> spec_method (session_paid\<lparr>payment_method_types := Some [[]]\<rparr>) = []"
proof -
  have p: "payments (store order_pending) = []" by (simp add: store_def)
  show ?thesis
    by (simp add: sample_empty_method sample_commit_ok commit_tables p new_payment_def
        first_method_def spec_method_def)
qed

subsection \<open>The idempotency guard\<close>

lemma paid_noop:
  assumes "resolves e sid st s oid ord" and "status ord = ''PAID''"
  shows "handleSuccessfulPayment e sid st =
     (Inr (), st\<lparr>console := console st @
        [Log (''Order '' @ oid @ '' already marked as PAID; skipping duplicate webhook.'')]\<rparr>)"
  using assms by (simp add: resolves_def handleSuccessfulPayment_def truthy_def)

lemma resolves_after:
  assumes "resolves e sid st s oid ord" and "orders st' oid = Some ord'"
  shows "resolves e sid st' s oid ord'"
  using assms by (simp add: resolves_def)

text \<open>
  Claim C1. When the session resolves to an order whose status is already \<open>PAID\<close>, the
  function returns without error, and the state it leaves differs from the one it found
  by one console line only: the order and payment tables are the same (no second
  payment), no collaborator is called, no promise is left unhandled. In particular a
  confirmation that succeeded can be repeated: the second call finds the order paid,
  whether the first call paid it or found it paid, and is such a no-op.
\<close>

theorem already_paid_is_noop:
  assumes "resolves e sessionId st session orderId order"
  shows "(status order = ''PAID''
          \<longrightarrow> handleSuccessfulPayment e sessionId st =
              (Inr (), st\<lparr>console := console st @
                 [Log (''Order '' @ orderId @ '' already marked as PAID; skipping duplicate webhook.'')]\<rparr>))
       \<and> (fst (handleSuccessfulPayment e sessionId st) = Inr ()
          \<longrightarrow> handleSuccessfulPayment e sessionId (snd (handleSuccessfulPayment e sessionId st)) =
              (Inr (), (snd (handleSuccessfulPayment e sessionId st))
                 \<lparr>console := console (snd (handleSuccessfulPayment e sessionId st)) @
                 [Log (''Order '' @ orderId @ '' already marked as PAID; skipping duplicate webhook.'')]\<rparr>))"
proof (intro conjI impI)
  assume "status order = ''PAID''"
  with assms show "handleSuccessfulPayment e sessionId st =
      (Inr (), st\<lparr>console := console st @
         [Log (''Order '' @ orderId @ '' already marked as PAID; skipping duplicate webhook.'')]\<rparr>)"
    by (rule paid_noop)
next
  assume ok: "fst (handleSuccessfulPayment e sessionId st) = Inr ()"
  define st' where "st' = snd (handleSuccessfulPayment e sessionId st)"
  have "\<exists>ord'. orders st' orderId = Some ord' \<and> status ord' = ''PAID''"
  proof (cases "status order = ''PAID''")
    case True
    from paid_noop [OF assms True] assms True show ?thesis
      by (simp add: st'_def resolves_def)
  next
    case False
    from ok have "reconcile orderId session order = None"
      unfolding handle_resolved [OF assms False] by (cases "reconcile orderId session order") simp_all
    then have "st' = snd (commit e orderId session order st)"
      unfolding st'_def handle_resolved [OF assms False] by simp
    then show ?thesis by (simp add: commit_tables paid_order_def)
  qed
  then obtain ord' where o: "orders st' orderId = Some ord'" "status ord' = ''PAID''" by blast
  from paid_noop [OF resolves_after [OF assms o(1)] o(2)]
  show "handleSuccessfulPayment e sessionId (snd (handleSuccessfulPayment e sessionId st)) =
      (Inr (), (snd (handleSuccessfulPayment e sessionId st))
         \<lparr>console := console (snd (handleSuccessfulPayment e sessionId st)) @
         [Log (''Order '' @ orderId @ '' already marked as PAID; skipping duplicate webhook.'')]\<rparr>)"
    unfolding st'_def .
qed

theorem already_paid_is_noop_witness:
  "resolves (world session_paid) ''cs_1'' (store (order_pending\<lparr>status := ''PAID''\<rparr>))
      session_paid ''o1'' (order_pending\<lparr>status := ''PAID''\<rparr>)
   \<and> status (order_pending\<lparr>status := ''PAID''\<rparr>) = ''PAID''
   \<and> handleSuccessfulPayment (world session_paid) ''cs_1'' (store (order_pending\<lparr>status := ''PAID''\<rparr>))
     = (Inr (), (store (order_pending\<lparr>status := ''PAID''\<rparr>))\<lparr>console :=
          [Log ''Order o1 already marked as PAID; skipping duplicate webhook.'']\<rparr>)
   \<and> resolves (world session_paid) ''cs_1'' (store order_pending) session_paid ''o1'' order_pending
   \<and> fst (handleSuccessfulPayment (world session_paid) ''cs_1'' (store order_pending)) = Inr ()
   \<and> fst (handleSuccessfulPayment (world session_paid) ''cs_1''
        (snd (handleSuccessfulPayment (world session_paid) ''cs_1'' (store order_pending)))) = Inr ()
   \<and> payments (snd (handleSuccessfulPayment (world session_paid) ''cs_1''
        (snd (handleSuccessfulPayment (world session_paid) ''cs_1'' (store order_pending)))))
      = payments (snd (handleSuccessfulPayment (world session_paid) ''cs_1'' (store order_pending)))"
proof -
  let ?p = "order_pending\<lparr>status := ''PAID''\<rparr>"
  have r: "resolves (world session_paid) ''cs_1'' (store ?p) session_paid ''o1'' ?p"
    by (rule example_resolves) (simp_all add: session_paid_def metadata_field_def)
  have p: "status ?p = ''PAID''" by simp
  have r2: "resolves (world session_paid) ''cs_1'' (store order_pending) session_paid ''o1'' order_pending"
    by (rule example_resolves) (simp_all add: session_paid_def metadata_field_def)
  have ok: "fst (handleSuccessfulPayment (world session_paid) ''cs_1'' (store order_pending)) = Inr ()"
    by (simp add: sample_succeeds sample_commit_ok)
  from already_paid_is_noop [OF r] p
  have 1: "handleSuccessfulPayment (world session_paid) ''cs_1'' (store ?p)
     = (Inr (), (store ?p)\<lparr>console :=
          [Log ''Order o1 already marked as PAID; skipping duplicate webhook.'']\<rparr>)"
    by (simp add: store_def)
  from already_paid_is_noop [OF r2] ok
  have 2: "handleSuccessfulPayment (world session_paid) ''cs_1''
        (snd (handleSuccessfulPayment (world session_paid) ''cs_1'' (store order_pending)))
      = (Inr (), (snd (handleSuccessfulPayment (world session_paid) ''cs_1'' (store order_pending)))
         \<lparr>console := console (snd (handleSuccessfulPayment (world session_paid) ''cs_1'' (store order_pending))) @
         [Log (''Order '' @ ''o1'' @ '' already marked as PAID; skipping duplicate webhook.'')]\<rparr>)"
    by blast
  show ?thesis
    using r p 1 r2 ok by (simp add: 2)
qed

subsection \<open>The promo increment\<close>

lemma resolves_env:
  "retrieve e' = retrieve e \<Longrightarrow> resolves e sid st s oid ord \<Longrightarrow> resolves e' sid st s oid ord"
  by (simp add: resolves_def)

lemma sample_reconciles:
  "reconcile ''o1'' session_paid (order_pending\<lparr>promoCodeId := p\<rparr>) = None"
  unfolding reconcile_None_iff
  by (simp add: sample_identity sample_currency agrees_4999 session_paid_def metadata_field_def
      order_pending_def)

lemma commit_start:
  assumes "\<not> truthy (promoCodeId ord) \<or> incrementPromoUsage e (the (promoCodeId ord)) = Fulfilled"
  shows "\<exists>st0. commit e oid s ord st = fan_out e oid (paid_order e ord) st0
     \<and> outbox st0 = outbox st
         @ (if truthy (promoCodeId ord) then [IncrementPromoUsage (the (promoCodeId ord))] else [])
     \<and> console st0 = console st @ [Log (''? Order '' @ oid @ '' marked as PAID'')]
     \<and> unhandled st0 = unhandled st"
  unfolding commit_fulfilled [OF assms]
  by (rule exI [of _ "(if truthy (promoCodeId ord)
        then call (IncrementPromoUsage (the (promoCodeId ord))) else id)
        ((snd (order_update e oid s ord st))
           \<lparr>console := console st @ [Log (''? Order '' @ oid @ '' marked as PAID'')]\<rparr>)"])
    (simp add: order_update_def Let_def)

lemma sample_world_commits:
  assumes "retrieve e = retrieve (world session_paid)"
  shows "handleSuccessfulPayment e ''cs_1'' (store order_pending)
     = commit e ''o1'' session_paid order_pending (store order_pending)"
proof -
  have "resolves (world session_paid) ''cs_1'' (store order_pending) session_paid ''o1'' order_pending"
    by (rule example_resolves) (simp_all add: session_paid_def metadata_field_def)
  then have r: "resolves e ''cs_1'' (store order_pending) session_paid ''o1'' order_pending"
    by (rule resolves_env [OF assms])
  have np: "status order_pending \<noteq> ''PAID''" by (simp add: order_pending_def)
  have "reconcile ''o1'' session_paid order_pending = None"
    using sample_reconciles [of None] by (simp add: order_pending_def)
  with handle_resolved [OF r np] show ?thesis by simp
qed

text \<open>
  Claim C3, amended. When the checks pass for a resolved order that is not yet paid and
  that order references a promo code, the function awaits the promo increment after the
  update. A rejection of the increment leaves the function as its error, after the
  update and without undoing it: the order is paid and has its payment row, the
  increment is the only call made to a collaborator, and neither mail nor analytics
  event is sent.
\<close>

theorem promo_rejection_propagates:
  assumes "resolves e sessionId st session orderId order" and "status order \<noteq> ''PAID''"
    and "reconcile orderId session order = None"
    and "promoCodeId order = Some promo" and "promo \<noteq> []"
    and "incrementPromoUsage e promo = Rejected why"
  shows "fst (handleSuccessfulPayment e sessionId st) = Inl (PromoIncrementRejected why)
       \<and> orders (snd (handleSuccessfulPayment e sessionId st))
           = (orders st)(orderId \<mapsto> order\<lparr>status := ''PAID'', paidAt := Some (now e)\<rparr>)
       \<and> payments (snd (handleSuccessfulPayment e sessionId st))
           = payments st @ [new_payment orderId session]
       \<and> outbox (snd (handleSuccessfulPayment e sessionId st))
           = outbox st @ [IncrementPromoUsage promo]"
  unfolding handle_resolved [OF assms(1,2)]
  using assms(3) commit_rejected [OF assms(4-6)]
  by (simp add: commit_tables paid_order_def)

theorem promo_rejection_propagates_witness:
  "resolves ((world session_paid)\<lparr>incrementPromoUsage := \<lambda>_. Rejected ''deadlock''\<rparr>) ''cs_1''
      (store (order_pending\<lparr>promoCodeId := Some ''SAVE10''\<rparr>)) session_paid ''o1''
      (order_pending\<lparr>promoCodeId := Some ''SAVE10''\<rparr>)
   \<and> status (order_pending\<lparr>promoCodeId := Some ''SAVE10''\<rparr>) \<noteq> ''PAID''
   \<and> reconcile ''o1'' session_paid (order_pending\<lparr>promoCodeId := Some ''SAVE10''\<rparr>) = None
   \<and> outbox (snd (handleSuccessfulPayment
        ((world session_paid)\<lparr>incrementPromoUsage := \<lambda>_. Rejected ''deadlock''\<rparr>) ''cs_1''
        (store (order_pending\<lparr>promoCodeId := Some ''SAVE10''\<rparr>))))
      = [IncrementPromoUsage ''SAVE10'']
   \<and> length (payments (snd (handleSuccessfulPayment
        ((world session_paid)\<lparr>incrementPromoUsage := \<lambda>_. Rejected ''deadlock''\<rparr>) ''cs_1''
        (store (order_pending\<lparr>promoCodeId := Some ''SAVE10''\<rparr>))))) = 1"
proof -
  let ?e = "(world session_paid)\<lparr>incrementPromoUsage := \<lambda>_. Rejected ''deadlock''\<rparr>"
  let ?o = "order_pending\<lparr>promoCodeId := Some ''SAVE10''\<rparr>"
  have "resolves (world session_paid) ''cs_1'' (store ?o) session_paid ''o1'' ?o"
    by (rule example_resolves) (simp_all add: session_paid_def metadata_field_def)
  then have r: "resolves ?e ''cs_1'' (store ?o) session_paid ''o1'' ?o"
    by (rule resolves_env [rotated]) simp
  have np: "status ?o \<noteq> ''PAID''" by (simp add: order_pending_def)
  have rc: "reconcile ''o1'' session_paid ?o = None" by (rule sample_reconciles)
  have p: "promoCodeId ?o = Some ''SAVE10''" "''SAVE10'' \<noteq> []"
    "incrementPromoUsage ?e ''SAVE10'' = Rejected ''deadlock''"
    by simp_all
  have s: "outbox (store ?o) = []" "payments (store ?o) = []" by (simp_all add: store_def)
  show ?thesis
    using r np rc promo_rejection_propagates [OF r np rc p] by (simp add: s)
qed

text \<open>
  The claim as first stated lets the function complete successfully whatever the
  increment does. With an increment that rejects, the function fails although the order
  has been marked as paid.
\<close>

theorem promo_rejection_propagates_counterexample:
  "promoCodeId (order_pending\<lparr>promoCodeId := Some ''SAVE10''\<rparr>) = Some ''SAVE10''
   \<and> incrementPromoUsage ((world session_paid)\<lparr>incrementPromoUsage := \<lambda>_. Rejected ''deadlock''\<rparr>)
        ''SAVE10'' = Rejected ''deadlock''
   \<and> fst (handleSuccessfulPayment
        ((world session_paid)\<lparr>incrementPromoUsage := \<lambda>_. Rejected ''deadlock''\<rparr>) ''cs_1''
        (store (order_pending\<lparr>promoCodeId := Some ''SAVE10''\<rparr>)))
      = Inl (PromoIncrementRejected ''deadlock'')
   \<and> map_option status (orders (snd (handleSuccessfulPayment
        ((world session_paid)\<lparr>incrementPromoUsage := \<lambda>_. Rejected ''deadlock''\<rparr>) ''cs_1''
        (store (order_pending\<lparr>promoCodeId := Some ''SAVE10''\<rparr>)))) ''o1'') = Some ''PAID''"
proof -
  let ?e = "(world session_paid)\<lparr>incrementPromoUsage := \<lambda>_. Rejected ''deadlock''\<rparr>"
  let ?o = "order_pending\<lparr>promoCodeId := Some ''SAVE10''\<rparr>"
  have "resolves (world session_paid) ''cs_1'' (store ?o) session_paid ''o1'' ?o"
    by (rule example_resolves) (simp_all add: session_paid_def metadata_field_def)
  then have r: "resolves ?e ''cs_1'' (store ?o) session_paid ''o1'' ?o"
    by (rule resolves_env [rotated]) simp
  have np: "status ?o \<noteq> ''PAID''" by (simp add: order_pending_def)
  have h: "handleSuccessfulPayment ?e ''cs_1'' (store ?o) = commit ?e ''o1'' session_paid ?o (store ?o)"
    using handle_resolved [OF r np] by (simp add: sample_reconciles)
  have p: "promoCodeId ?o = Some ''SAVE10''" "''SAVE10'' \<noteq> []"
    "incrementPromoUsage ?e ''SAVE10'' = Rejected ''deadlock''"
    by simp_all
  show ?thesis
    unfolding h using commit_rejected(1) [OF p] p
    by (simp add: commit_tables paid_order_def)
qed

subsection \<open>The fan-out\<close>

text \<open>The sample order reaches the fan-out with one line on the console and no call made.\<close>

lemma sample_fan_out_start:
  assumes "retrieve e = retrieve (world session_paid)"
  shows "\<exists>st0. handleSuccessfulPayment e ''cs_1'' (store order_pending)
        = fan_out e ''o1'' (paid_order e order_pending) st0
     \<and> outbox st0 = [] \<and> console st0 = [Log ''? Order o1 marked as PAID''] \<and> unhandled st0 = []"
proof -
  have p: "\<not> truthy (promoCodeId order_pending)
      \<or> incrementPromoUsage e (the (promoCodeId order_pending)) = Fulfilled"
    by (simp add: truthy_def order_pending_def)
  have t: "\<not> truthy (promoCodeId order_pending)" by (simp add: truthy_def order_pending_def)
  from commit_start [OF p, of "''o1''" session_paid "store order_pending"] t
  show ?thesis
    unfolding sample_world_commits [OF assms] by (simp add: store_def)
qed

text \<open>
  Claim C4, amended. When the checks pass for a resolved order that is not yet paid, and
  the promo increment is not called or fulfils, the update stands whatever the two mails
  and the analytics event do, and:
  \<^item> when none of the three calls throws before it returns, the function returns
    success, and all three calls are made, in this order. A rejection of the promise of
    either mail is caught by its handler and becomes one line of
    \<^verbatim>\<open>console.error\<close>. A rejection of the promise of the analytics event is not
    caught and not logged by the function: the promise is dropped, the console gets no
    line for it, and the rejection is left unhandled;
  \<^item> when one of the three calls throws before it returns, nothing catches the error:
    the function fails with it, after the update, and the calls that come after it are
    not made. The handlers of the mails called before it still log their rejections.
\<close>

theorem fan_out_failures:
  fixes e :: env and orderId :: string and order :: Order and st :: state
  defines "r1 \<equiv> sendOrderConfirmation e (confirmation_mail e orderId (paid_order e order))"
    and "r2 \<equiv> sendPromptGuide e (guide_mail e orderId (paid_order e order))"
    and "r3 \<equiv> sendAnalyticsEvent e (paid_event orderId (paid_order e order))"
    and "made \<equiv> outbox st
          @ (if truthy (promoCodeId order) then [IncrementPromoUsage (the (promoCodeId order))] else [])"
    and "printed \<equiv> console st @ [Log (''? Order '' @ orderId @ '' marked as PAID'')]"
  assumes "resolves e sessionId st session orderId order" and "status order \<noteq> ''PAID''"
    and "reconcile orderId session order = None"
    and "\<not> truthy (promoCodeId order) \<or> incrementPromoUsage e (the (promoCodeId order)) = Fulfilled"
  shows "orders (snd (handleSuccessfulPayment e sessionId st))
           = (orders st)(orderId \<mapsto> paid_order e order)
       \<and> payments (snd (handleSuccessfulPayment e sessionId st))
           = payments st @ [new_payment orderId session]
       \<and> (\<not> threw r1 \<and> \<not> threw r2 \<and> \<not> threw r3
          \<longrightarrow> fst (handleSuccessfulPayment e sessionId st) = Inr ()
            \<and> outbox (snd (handleSuccessfulPayment e sessionId st))
                = made @ [SendOrderConfirmation (confirmation_mail e orderId (paid_order e order)),
                          SendPromptGuide (guide_mail e orderId (paid_order e order)),
                          SendAnalyticsEvent (paid_event orderId (paid_order e order))]
            \<and> console (snd (handleSuccessfulPayment e sessionId st))
                = printed
                  @ rejection_lines ''Failed to send order confirmation email:'' r1
                  @ rejection_lines ''Failed to send prompt guide email:'' r2
            \<and> unhandled (snd (handleSuccessfulPayment e sessionId st))
                = unhandled st @ rejection_reasons r3)
       \<and> (\<forall>why. r1 = Threw why
          \<longrightarrow> fst (handleSuccessfulPayment e sessionId st) = Inl (DispatchThrew why)
            \<and> outbox (snd (handleSuccessfulPayment e sessionId st))
                = made @ [SendOrderConfirmation (confirmation_mail e orderId (paid_order e order))]
            \<and> console (snd (handleSuccessfulPayment e sessionId st)) = printed)
       \<and> (\<forall>why. \<not> threw r1 \<and> r2 = Threw why
          \<longrightarrow> fst (handleSuccessfulPayment e sessionId st) = Inl (DispatchThrew why)
            \<and> outbox (snd (handleSuccessfulPayment e sessionId st))
                = made @ [SendOrderConfirmation (confirmation_mail e orderId (paid_order e order)),
                          SendPromptGuide (guide_mail e orderId (paid_order e order))]
            \<and> console (snd (handleSuccessfulPayment e sessionId st))
                = printed @ rejection_lines ''Failed to send order confirmation email:'' r1)
       \<and> (\<forall>why. \<not> threw r1 \<and> \<not> threw r2 \<and> r3 = Threw why
          \<longrightarrow> fst (handleSuccessfulPayment e sessionId st) = Inl (DispatchThrew why)
            \<and> outbox (snd (handleSuccessfulPayment e sessionId st))
                = made @ [SendOrderConfirmation (confirmation_mail e orderId (paid_order e order)),
                          SendPromptGuide (guide_mail e orderId (paid_order e order)),
                          SendAnalyticsEvent (paid_event orderId (paid_order e order))]
            \<and> console (snd (handleSuccessfulPayment e sessionId st))
                = printed
                  @ rejection_lines ''Failed to send order confirmation email:'' r1
                  @ rejection_lines ''Failed to send prompt guide email:'' r2
            \<and> unhandled (snd (handleSuccessfulPayment e sessionId st)) = unhandled st)"
proof -
  have h: "handleSuccessfulPayment e sessionId st = commit e orderId session order st"
    using handle_resolved [OF assms(6,7)] assms(8) by simp
  from commit_start [OF assms(9)] obtain st0
    where c: "commit e orderId session order st = fan_out e orderId (paid_order e order) st0"
      and o: "outbox st0 = made" and p: "console st0 = printed" and u: "unhandled st0 = unhandled st"
    unfolding made_def printed_def by blast
  show ?thesis
    unfolding h
  proof (intro conjI impI allI)
    show "orders (snd (commit e orderId session order st)) = (orders st)(orderId \<mapsto> paid_order e order)"
      by (rule commit_tables)
    show "payments (snd (commit e orderId session order st)) = payments st @ [new_payment orderId session]"
      by (rule commit_tables)
  qed (simp_all add: c o p u r1_def r2_def r3_def fan_out_returns fan_out_first_throws
      fan_out_second_throws fan_out_third_throws)
qed

theorem fan_out_failures_witness:
  "resolves ((world session_paid)\<lparr>sendOrderConfirmation := \<lambda>_. Rejected ''smtp down''\<rparr>) ''cs_1''
      (store order_pending) session_paid ''o1'' order_pending
   \<and> status order_pending \<noteq> ''PAID''
   \<and> reconcile ''o1'' session_paid order_pending = None
   \<and> \<not> truthy (promoCodeId order_pending)
   \<and> fst (handleSuccessfulPayment
        ((world session_paid)\<lparr>sendOrderConfirmation := \<lambda>_. Rejected ''smtp down''\<rparr>) ''cs_1''
        (store order_pending)) = Inr ()
   \<and> console (snd (handleSuccessfulPayment
        ((world session_paid)\<lparr>sendOrderConfirmation := \<lambda>_. Rejected ''smtp down''\<rparr>) ''cs_1''
        (store order_pending)))
      = [Log ''? Order o1 marked as PAID'',
         LogError ''Failed to send order confirmation email:'' ''smtp down'']
   \<and> length (outbox (snd (handleSuccessfulPayment
        ((world session_paid)\<lparr>sendOrderConfirmation := \<lambda>_. Rejected ''smtp down''\<rparr>) ''cs_1''
        (store order_pending)))) = 3
   \<and> resolves ((world session_paid)\<lparr>sendPromptGuide := \<lambda>_. Threw ''bad template''\<rparr>) ''cs_1''
      (store order_pending) session_paid ''o1'' order_pending
   \<and> fst (handleSuccessfulPayment
        ((world session_paid)\<lparr>sendPromptGuide := \<lambda>_. Threw ''bad template''\<rparr>) ''cs_1''
        (store order_pending)) = Inl (DispatchThrew ''bad template'')
   \<and> length (outbox (snd (handleSuccessfulPayment
        ((world session_paid)\<lparr>sendPromptGuide := \<lambda>_. Threw ''bad template''\<rparr>) ''cs_1''
        (store order_pending)))) = 2"
proof -
  let ?e = "(world session_paid)\<lparr>sendOrderConfirmation := \<lambda>_. Rejected ''smtp down''\<rparr>"
  let ?f = "(world session_paid)\<lparr>sendPromptGuide := \<lambda>_. Threw ''bad template''\<rparr>"
  have r0: "resolves (world session_paid) ''cs_1'' (store order_pending) session_paid ''o1'' order_pending"
    by (rule example_resolves) (simp_all add: session_paid_def metadata_field_def)
  then have r: "resolves ?e ''cs_1'' (store order_pending) session_paid ''o1'' order_pending"
    by (rule resolves_env [rotated]) simp
  from r0 have rf: "resolves ?f ''cs_1'' (store order_pending) session_paid ''o1'' order_pending"
    by (rule resolves_env [rotated]) simp
  have np: "status order_pending \<noteq> ''PAID''" by (simp add: order_pending_def)
  have rc: "reconcile ''o1'' session_paid order_pending = None"
    using sample_reconciles [of None] by (simp add: order_pending_def)
  have nt: "\<not> truthy (promoCodeId order_pending)" by (simp add: truthy_def order_pending_def)
  then have p: "\<not> truthy (promoCodeId order_pending)
      \<or> incrementPromoUsage ?e (the (promoCodeId order_pending)) = Fulfilled"
    and pf: "\<not> truthy (promoCodeId order_pending)
      \<or> incrementPromoUsage ?f (the (promoCodeId order_pending)) = Fulfilled"
    by simp_all
  have s: "console (store order_pending) = []" "outbox (store order_pending) = []"
    by (simp_all add: store_def)
  have m: "sendOrderConfirmation ?e = (\<lambda>_. Rejected ''smtp down'')"
    "sendPromptGuide ?e = (\<lambda>_. Fulfilled)" "sendAnalyticsEvent ?e = (\<lambda>_. Fulfilled)"
    by (simp_all add: world_def)
  have mf: "sendOrderConfirmation ?f = (\<lambda>_. Fulfilled)"
    "sendPromptGuide ?f = (\<lambda>_. Threw ''bad template'')"
    by (simp_all add: world_def)
  have A: "fst (handleSuccessfulPayment ?e ''cs_1'' (store order_pending)) = Inr ()
     \<and> console (snd (handleSuccessfulPayment ?e ''cs_1'' (store order_pending)))
        = [Log ''? Order o1 marked as PAID'',
           LogError ''Failed to send order confirmation email:'' ''smtp down'']
     \<and> length (outbox (snd (handleSuccessfulPayment ?e ''cs_1'' (store order_pending)))) = 3"
    using fan_out_failures [OF r np rc p]
    by (simp add: s m nt rejection_lines_def)
  have B: "fst (handleSuccessfulPayment ?f ''cs_1'' (store order_pending))
        = Inl (DispatchThrew ''bad template'')
     \<and> length (outbox (snd (handleSuccessfulPayment ?f ''cs_1'' (store order_pending)))) = 2"
    using fan_out_failures [OF rf np rc pf]
    by (simp add: s mf nt)
  from r np rc nt rf A B show ?thesis by blast
qed

text \<open>
  The claim as first stated has every failure of the three calls caught and logged, and
  none of them able to fail the function. An analytics call that throws before it
  returns fails the function, after the order has been marked as paid, and nothing is
  logged for it; an analytics promise that rejects leaves the function successful, but
  is neither caught nor logged: the rejection stays unhandled.
\<close>

theorem fan_out_failures_counterexample:
  "sendAnalyticsEvent ((world session_paid)\<lparr>sendAnalyticsEvent := \<lambda>_. Threw ''analytics down''\<rparr>)
      (paid_event ''o1'' (paid_order (world session_paid) order_pending)) = Threw ''analytics down''
   \<and> fst (handleSuccessfulPayment
        ((world session_paid)\<lparr>sendAnalyticsEvent := \<lambda>_. Threw ''analytics down''\<rparr>) ''cs_1''
        (store order_pending)) = Inl (DispatchThrew ''analytics down'')
   \<and> map_option status (orders (snd (handleSuccessfulPayment
        ((world session_paid)\<lparr>sendAnalyticsEvent := \<lambda>_. Threw ''analytics down''\<rparr>) ''cs_1''
        (store order_pending))) ''o1'') = Some ''PAID''
   \<and> console (snd (handleSuccessfulPayment
        ((world session_paid)\<lparr>sendAnalyticsEvent := \<lambda>_. Threw ''analytics down''\<rparr>) ''cs_1''
        (store order_pending))) = [Log ''? Order o1 marked as PAID'']
   \<and> sendAnalyticsEvent ((world session_paid)\<lparr>sendAnalyticsEvent := \<lambda>_. Rejected ''timeout''\<rparr>)
      (paid_event ''o1'' (paid_order (world session_paid) order_pending)) = Rejected ''timeout''
   \<and> fst (handleSuccessfulPayment
        ((world session_paid)\<lparr>sendAnalyticsEvent := \<lambda>_. Rejected ''timeout''\<rparr>) ''cs_1''
        (store order_pending)) = Inr ()
   \<and> console (snd (handleSuccessfulPayment
        ((world session_paid)\<lparr>sendAnalyticsEvent := \<lambda>_. Rejected ''timeout''\<rparr>) ''cs_1''
        (store order_pending))) = [Log ''? Order o1 marked as PAID'']
   \<and> unhandled (snd (handleSuccessfulPayment
        ((world session_paid)\<lparr>sendAnalyticsEvent := \<lambda>_. Rejected ''timeout''\<rparr>) ''cs_1''
        (store order_pending))) = [''timeout'']"
proof -
  let ?t = "(world session_paid)\<lparr>sendAnalyticsEvent := \<lambda>_. Threw ''analytics down''\<rparr>"
  let ?r = "(world session_paid)\<lparr>sendAnalyticsEvent := \<lambda>_. Rejected ''timeout''\<rparr>"
  have mt: "sendOrderConfirmation ?t = (\<lambda>_. Fulfilled)" "sendPromptGuide ?t = (\<lambda>_. Fulfilled)"
    "sendAnalyticsEvent ?t = (\<lambda>_. Threw ''analytics down'')"
    by (simp_all add: world_def)
  have mr: "sendOrderConfirmation ?r = (\<lambda>_. Fulfilled)" "sendPromptGuide ?r = (\<lambda>_. Fulfilled)"
    "sendAnalyticsEvent ?r = (\<lambda>_. Rejected ''timeout'')"
    by (simp_all add: world_def)
  have ht: "handleSuccessfulPayment ?t ''cs_1'' (store order_pending)
      = commit ?t ''o1'' session_paid order_pending (store order_pending)"
    by (rule sample_world_commits) simp
  from sample_fan_out_start [of ?t] obtain a
    where a: "handleSuccessfulPayment ?t ''cs_1'' (store order_pending)
        = fan_out ?t ''o1'' (paid_order ?t order_pending) a"
      "outbox a = []" "console a = [Log ''? Order o1 marked as PAID'']" "unhandled a = []"
    by auto
  from sample_fan_out_start [of ?r] obtain b
    where b: "handleSuccessfulPayment ?r ''cs_1'' (store order_pending)
        = fan_out ?r ''o1'' (paid_order ?r order_pending) b"
      "outbox b = []" "console b = [Log ''? Order o1 marked as PAID'']" "unhandled b = []"
    by auto
  have 1: "fst (handleSuccessfulPayment ?t ''cs_1'' (store order_pending))
      = Inl (DispatchThrew ''analytics down'')"
    "console (snd (handleSuccessfulPayment ?t ''cs_1'' (store order_pending)))
      = [Log ''? Order o1 marked as PAID'']"
    unfolding a(1)
    by (simp_all add: fan_out_third_throws mt a rejection_lines_def)
  have 2: "map_option status (orders (snd (handleSuccessfulPayment ?t ''cs_1'' (store order_pending)))
      ''o1'') = Some ''PAID''"
    unfolding ht by (simp add: commit_tables paid_order_def)
  have 3: "fst (handleSuccessfulPayment ?r ''cs_1'' (store order_pending)) = Inr ()"
    "console (snd (handleSuccessfulPayment ?r ''cs_1'' (store order_pending)))
      = [Log ''? Order o1 marked as PAID'']"
    "unhandled (snd (handleSuccessfulPayment ?r ''cs_1'' (store order_pending))) = [''timeout'']"
    unfolding b(1)
    by (simp_all add: fan_out_returns mr b rejection_lines_def rejection_reasons_def)
  show ?thesis
    using 1 2 3 by (simp add: mt mr)
qed

subsection \<open>The amount check\<close>

lemma commit_not_amount: "fst (commit e oid s ord st) \<noteq> Inl (AmountMismatch a b)"
  using commit_not_guard_error [of e oid s ord st "AmountMismatch a b"] by auto

lemma amount_stage:
  assumes "resolves e sid st s oid ord" "status ord \<noteq> ''PAID''"
    "identity_matches oid s ord" "currency_supported s"
  shows "handleSuccessfulPayment e sid st =
     (if amount_differs s ord then (Inl (AmountMismatch (orderTotal ord) (sessionTotal s)), st)
      else commit e oid s ord st)"
  unfolding handle_resolved [OF assms(1,2)]
  using assms(3,4) by (auto simp: reconcile_def identity_matches_def currency_supported_def)

lemma sample_amount_stage:
  assumes "amount_total s = a" "totalAmount ord = t"
  shows "handleSuccessfulPayment (world (session_paid\<lparr>amount_total := a\<rparr>)) ''cs_1''
       (store (order_pending\<lparr>totalAmount := t\<rparr>))
     = (if amount_differs s ord
        then (Inl (AmountMismatch (to_double t) (sessionTotal s)), store (order_pending\<lparr>totalAmount := t\<rparr>))
        else commit (world (session_paid\<lparr>amount_total := a\<rparr>)) ''o1'' (session_paid\<lparr>amount_total := a\<rparr>)
          (order_pending\<lparr>totalAmount := t\<rparr>) (store (order_pending\<lparr>totalAmount := t\<rparr>)))"
proof -
  let ?s = "session_paid\<lparr>amount_total := a\<rparr>" and ?o = "order_pending\<lparr>totalAmount := t\<rparr>"
  have r: "resolves (world ?s) ''cs_1'' (store ?o) ?s ''o1'' ?o"
    by (rule example_resolves) (simp_all add: session_paid_def metadata_field_def)
  have np: "status ?o \<noteq> ''PAID''" by (simp add: order_pending_def)
  have i: "identity_matches ''o1'' ?s ?o"
    by (rule sample_identity) (simp_all add: session_paid_def metadata_field_def order_pending_def)
  have c: "currency_supported ?s" by (rule sample_currency) (simp add: session_paid_def)
  have e: "amount_differs ?s ?o = amount_differs s ord" "sessionTotal ?s = sessionTotal s"
    "orderTotal ?o = to_double t"
    using assms by (simp_all add: amount_differs_def sessionTotal_def orderTotal_def)
  show ?thesis
    unfolding amount_stage [OF r np i c] e ..
qed

lemma absent_stage:
  assumes "amount_total s = None \<or> amount_total s = Some 0"
  shows "amount_differs s ord
     = num_gt (num_abs (num_sub (Fin 0) (orderTotal ord))) (to_double (1 / 100))"
  by (simp add: amount_differs_def sessionTotal_absent [OF assms])

lemma cent_total_agrees:
  "\<not> num_gt (num_abs (num_sub (Fin 0) (to_double (1 / 100)))) (to_double (1 / 100))"
  "\<not> num_gt (num_abs (num_sub (Fin 0) (to_double (- (1 / 100))))) (to_double (1 / 100))"
  by code_simp+

lemma absent_exact:
  "amount_total s = None \<or> amount_total s = Some 0
   \<Longrightarrow> exact_difference s ord = \<bar>totalAmount ord\<bar>"
  by (auto simp: exact_difference_def)

lemma absent_everyday:
  "amount_total s = None \<or> amount_total s = Some 0
   \<Longrightarrow> everyday_amounts s ord = (\<bar>totalAmount ord\<bar> \<le> 10 ^ 9)"
  by (auto simp: everyday_amounts_def)

text \<open>
  Claim C5, amended. For a resolved order that is not yet paid and a session that passes
  the identity and currency checks, the function fails with the amount-mismatch error,
  carrying the order total and the converted session total and leaving the state
  untouched, exactly when the difference exceeds the tolerance in binary64 arithmetic:
  the session amount divided by 100, the order total and their difference are each
  rounded to the nearest binary64 value, and the absolute difference is compared with
  the binary64 value of 0.01. Otherwise the function goes on to the update and never
  reports an amount mismatch. For amounts of everyday size this agrees with the exact
  difference away from the tolerance: an exact difference of 0.0101 or more fails, one
  of 0.0099 or less passes. So amounts that agree to the cent pass and amounts two cents
  or more apart fail; a difference of exactly one cent falls on either side (a total of
  50.00 with a session amount of 5001 passes). An order total of 49.99 with a session
  amount of 4999 passes the check; with a session amount of 5100 the function fails,
  carrying the binary64 values of 49.99 and of 51.
\<close>

theorem amount_check:
  assumes "resolves e sessionId st session orderId order" and "status order \<noteq> ''PAID''"
    and "identity_matches orderId session order" and "currency_supported session"
  shows "(amount_differs session order
          \<longrightarrow> handleSuccessfulPayment e sessionId st
              = (Inl (AmountMismatch (orderTotal order) (sessionTotal session)), st))
       \<and> (\<not> amount_differs session order
          \<longrightarrow> handleSuccessfulPayment e sessionId st = commit e orderId session order st
            \<and> (\<forall>a b. fst (handleSuccessfulPayment e sessionId st) \<noteq> Inl (AmountMismatch a b)))
       \<and> (everyday_amounts session order \<and> 101 / 10000 \<le> exact_difference session order
          \<longrightarrow> amount_differs session order)
       \<and> (everyday_amounts session order \<and> exact_difference session order \<le> 99 / 10000
          \<longrightarrow> \<not> amount_differs session order)
       \<and> (amount_total session = Some 4999 \<and> totalAmount order = 4999 / 100
          \<longrightarrow> \<not> amount_differs session order)
       \<and> (amount_total session = Some 5100 \<and> totalAmount order = 4999 / 100
          \<longrightarrow> amount_differs session order \<and> orderTotal order = to_double (4999 / 100)
            \<and> sessionTotal session = Fin 51)
       \<and> (amount_total session = Some 5001 \<and> totalAmount order = 50
          \<longrightarrow> \<not> amount_differs session order)"
proof (intro conjI impI allI)
  assume "amount_differs session order"
  then show "handleSuccessfulPayment e sessionId st
      = (Inl (AmountMismatch (orderTotal order) (sessionTotal session)), st)"
    by (simp add: amount_stage [OF assms])
next
  assume "\<not> amount_differs session order"
  then show h: "handleSuccessfulPayment e sessionId st = commit e orderId session order st"
    by (simp add: amount_stage [OF assms])
  fix a b
  show "fst (handleSuccessfulPayment e sessionId st) \<noteq> Inl (AmountMismatch a b)"
    unfolding h by (rule commit_not_amount)
next
  assume "everyday_amounts session order \<and> 101 / 10000 \<le> exact_difference session order"
  then show "amount_differs session order"
    using far_amounts_differ by blast
next
  assume "everyday_amounts session order \<and> exact_difference session order \<le> 99 / 10000"
  then show "\<not> amount_differs session order"
    using near_amounts_agree by blast
next
  assume "amount_total session = Some 4999 \<and> totalAmount order = 4999 / 100"
  then show "\<not> amount_differs session order"
    using agrees_4999 by blast
next
  assume a: "amount_total session = Some 5100 \<and> totalAmount order = 4999 / 100"
  then show "amount_differs session order"
    using differs_5100 by blast
  from a show "orderTotal order = to_double (4999 / 100)"
    by (simp only: orderTotal_def)
  from a show "sessionTotal session = Fin 51"
    using sessionTotal_5100 by blast
next
  assume "amount_total session = Some 5001 \<and> totalAmount order = 50"
  then show "\<not> amount_differs session order"
    using agrees_5001 by blast
qed

theorem amount_check_witness:
  "resolves (world (session_paid\<lparr>amount_total := Some 5100\<rparr>)) ''cs_1''
      (store (order_pending\<lparr>totalAmount := 4999 / 100\<rparr>))
      (session_paid\<lparr>amount_total := Some 5100\<rparr>) ''o1'' (order_pending\<lparr>totalAmount := 4999 / 100\<rparr>)
   \<and> status (order_pending\<lparr>totalAmount := 4999 / 100\<rparr>) \<noteq> ''PAID''
   \<and> identity_matches ''o1'' (session_paid\<lparr>amount_total := Some 5100\<rparr>)
        (order_pending\<lparr>totalAmount := 4999 / 100\<rparr>)
   \<and> currency_supported (session_paid\<lparr>amount_total := Some 5100\<rparr>)
   \<and> everyday_amounts (session_paid\<lparr>amount_total := Some 5100\<rparr>)
        (order_pending\<lparr>totalAmount := 4999 / 100\<rparr>)
   \<and> 101 / 10000 \<le> exact_difference (session_paid\<lparr>amount_total := Some 5100\<rparr>)
        (order_pending\<lparr>totalAmount := 4999 / 100\<rparr>)
   \<and> handleSuccessfulPayment (world (session_paid\<lparr>amount_total := Some 5100\<rparr>)) ''cs_1''
        (store (order_pending\<lparr>totalAmount := 4999 / 100\<rparr>))
      = (Inl (AmountMismatch (to_double (4999 / 100)) (Fin 51)),
         store (order_pending\<lparr>totalAmount := 4999 / 100\<rparr>))
   \<and> exact_difference (session_paid\<lparr>amount_total := Some 4999\<rparr>)
        (order_pending\<lparr>totalAmount := 4999 / 100\<rparr>) \<le> 99 / 10000
   \<and> fst (handleSuccessfulPayment (world (session_paid\<lparr>amount_total := Some 4999\<rparr>)) ''cs_1''
        (store (order_pending\<lparr>totalAmount := 4999 / 100\<rparr>))) = Inr ()"
proof -
  let ?a = "session_paid\<lparr>amount_total := Some 5100\<rparr>"
  let ?b = "session_paid\<lparr>amount_total := Some 4999\<rparr>"
  let ?o = "order_pending\<lparr>totalAmount := 4999 / 100\<rparr>"
  have ra: "resolves (world ?a) ''cs_1'' (store ?o) ?a ''o1'' ?o"
    by (rule example_resolves) (simp_all add: session_paid_def metadata_field_def)
  have rb: "resolves (world ?b) ''cs_1'' (store ?o) ?b ''o1'' ?o"
    by (rule example_resolves) (simp_all add: session_paid_def metadata_field_def)
  have np: "status ?o \<noteq> ''PAID''" by (simp add: order_pending_def)
  have ia: "identity_matches ''o1'' ?a ?o"
    by (rule sample_identity) (simp_all add: session_paid_def metadata_field_def order_pending_def)
  have ib: "identity_matches ''o1'' ?b ?o"
    by (rule sample_identity) (simp_all add: session_paid_def metadata_field_def order_pending_def)
  have ca: "currency_supported ?a" by (rule sample_currency) (simp add: session_paid_def)
  have cb: "currency_supported ?b" by (rule sample_currency) (simp add: session_paid_def)
  have ea: "everyday_amounts ?a ?o \<and> 101 / 10000 \<le> exact_difference ?a ?o"
    by (simp add: everyday_amounts_def exact_difference_def)
  have eb: "everyday_amounts ?b ?o \<and> exact_difference ?b ?o \<le> 99 / 10000"
    by (simp add: everyday_amounts_def exact_difference_def)
  have fa: "amount_total ?a = Some 5100 \<and> totalAmount ?o = 4999 / 100" by simp
  have ok: "fst (commit (world ?b) ''o1'' ?b ?o (store ?o)) = Inr ()"
    by (rule world_commit_ok) (simp add: truthy_def order_pending_def)
  note A = amount_check [OF ra np ia ca] and B = amount_check [OF rb np ib cb]
  from A ea have da: "amount_differs ?a ?o" by blast
  from A fa have va: "orderTotal ?o = to_double (4999 / 100)" "sessionTotal ?a = Fin 51"
    by blast+
  from A da have 1: "handleSuccessfulPayment (world ?a) ''cs_1'' (store ?o)
      = (Inl (AmountMismatch (orderTotal ?o) (sessionTotal ?a)), store ?o)"
    by blast
  from B eb have db: "\<not> amount_differs ?b ?o" by blast
  with B have "handleSuccessfulPayment (world ?b) ''cs_1'' (store ?o)
      = commit (world ?b) ''o1'' ?b ?o (store ?o)"
    by blast
  with ok have 2: "fst (handleSuccessfulPayment (world ?b) ''cs_1'' (store ?o)) = Inr ()"
    by simp
  from ra np ia ca ea eb 1 2 show ?thesis unfolding va by blast
qed

text \<open>
  The claim as first stated compares the exact difference with 0.01. An order total of
  1.00 with a session amount of 101 differs by exactly one cent, which does not exceed
  the tolerance; in binary64 arithmetic \<open>1.01 - 1\<close> is a little more than the
  binary64 value of 0.01, and the function fails.
\<close>

theorem amount_check_counterexample:
  "exact_difference (session_paid\<lparr>amount_total := Some 101\<rparr>) (order_pending\<lparr>totalAmount := 1\<rparr>)
      = 1 / 100
   \<and> handleSuccessfulPayment (world (session_paid\<lparr>amount_total := Some 101\<rparr>)) ''cs_1''
        (store (order_pending\<lparr>totalAmount := 1\<rparr>))
      = (Inl (AmountMismatch (to_double 1)
               (sessionTotal (session_paid\<lparr>amount_total := Some 101\<rparr>))),
         store (order_pending\<lparr>totalAmount := 1\<rparr>))"
proof -
  let ?s = "session_paid\<lparr>amount_total := Some 101\<rparr>" and ?o = "order_pending\<lparr>totalAmount := 1\<rparr>"
  have d: "amount_differs ?s ?o" by (rule differs_101) simp_all
  have x: "exact_difference ?s ?o = 1 / 100" by (simp add: exact_difference_def)
  show ?thesis
    using sample_amount_stage [of ?s "Some 101" ?o 1] d x by simp
qed

subsection \<open>A session without amount\<close>

text \<open>
  Claim C10, amended. For a resolved order that is not yet paid and a session that passes
  the identity and currency checks, when the session's amount is absent or zero, the
  converted session total is 0, and the function fails with the amount-mismatch error
  exactly when the order total exceeds the tolerance in binary64 arithmetic: the
  absolute value of 0 minus the binary64 value of the order total is compared with the
  binary64 value of 0.01. Otherwise the function goes on to the update. For totals up to
  \<open>10 ^ 9\<close> in absolute value: a total of 0.0101 or more, so every total of two cents or
  more, fails; a total of at most 0.0099, or of exactly 0.01, passes.
\<close>

theorem absent_amount:
  assumes "resolves e sessionId st session orderId order" and "status order \<noteq> ''PAID''"
    and "identity_matches orderId session order" and "currency_supported session"
    and "amount_total session = None \<or> amount_total session = Some 0"
  shows "sessionTotal session = Fin 0
       \<and> (num_gt (num_abs (num_sub (Fin 0) (orderTotal order))) (to_double (1 / 100))
          \<longrightarrow> handleSuccessfulPayment e sessionId st
              = (Inl (AmountMismatch (orderTotal order) (Fin 0)), st))
       \<and> (\<not> num_gt (num_abs (num_sub (Fin 0) (orderTotal order))) (to_double (1 / 100))
          \<longrightarrow> handleSuccessfulPayment e sessionId st = commit e orderId session order st)
       \<and> (101 / 10000 \<le> \<bar>totalAmount order\<bar> \<and> \<bar>totalAmount order\<bar> \<le> 10 ^ 9
          \<longrightarrow> handleSuccessfulPayment e sessionId st
              = (Inl (AmountMismatch (orderTotal order) (Fin 0)), st))
       \<and> (\<bar>totalAmount order\<bar> \<le> 99 / 10000 \<or> \<bar>totalAmount order\<bar> = 1 / 100
          \<longrightarrow> handleSuccessfulPayment e sessionId st = commit e orderId session order st)"
proof (intro conjI impI)
  show z: "sessionTotal session = Fin 0" by (rule sessionTotal_absent [OF assms(5)])
  note st = amount_stage [OF assms(1-4)] and ab = absent_stage [OF assms(5)]
  {
    assume "num_gt (num_abs (num_sub (Fin 0) (orderTotal order))) (to_double (1 / 100))"
    then show "handleSuccessfulPayment e sessionId st
        = (Inl (AmountMismatch (orderTotal order) (Fin 0)), st)"
      using st ab z by simp
  next
    assume "\<not> num_gt (num_abs (num_sub (Fin 0) (orderTotal order))) (to_double (1 / 100))"
    then show "handleSuccessfulPayment e sessionId st = commit e orderId session order st"
      using st ab by simp
  next
    assume "101 / 10000 \<le> \<bar>totalAmount order\<bar> \<and> \<bar>totalAmount order\<bar> \<le> 10 ^ 9"
    then have "amount_differs session order"
      using far_amounts_differ [of session order] absent_exact [OF assms(5), of order]
        absent_everyday [OF assms(5), of order]
      by simp
    then show "handleSuccessfulPayment e sessionId st
        = (Inl (AmountMismatch (orderTotal order) (Fin 0)), st)"
      using st z by simp
  next
    assume a: "\<bar>totalAmount order\<bar> \<le> 99 / 10000 \<or> \<bar>totalAmount order\<bar> = 1 / 100"
    have "\<not> amount_differs session order"
    proof (cases "\<bar>totalAmount order\<bar> \<le> 99 / 10000")
      case True
      then have "\<bar>totalAmount order\<bar> \<le> 10 ^ 9" by simp
      with True show ?thesis
        using near_amounts_agree [of session order] absent_exact [OF assms(5), of order]
          absent_everyday [OF assms(5), of order]
        by simp
    next
      case False
      with a have eq: "\<bar>totalAmount order\<bar> = 1 / 100" by blast
      have "totalAmount order = 1 / 100 \<or> totalAmount order = - (1 / 100)"
      proof (cases "totalAmount order < 0")
        case True
        with eq have "- totalAmount order = 1 / 100" by (simp only: abs_of_neg)
        then show ?thesis by linarith
      next
        case False
        with eq have "totalAmount order = 1 / 100" by (simp only: abs_of_nonneg not_less)
        then show ?thesis by blast
      qed
      then show ?thesis
        unfolding ab orderTotal_def using cent_total_agrees by metis
    qed
    then show "handleSuccessfulPayment e sessionId st = commit e orderId session order st"
      using st by simp
  }
qed

theorem absent_amount_witness:
  "resolves (world (session_paid\<lparr>amount_total := None\<rparr>)) ''cs_1'' (store order_pending)
      (session_paid\<lparr>amount_total := None\<rparr>) ''o1'' order_pending
   \<and> status order_pending \<noteq> ''PAID''
   \<and> identity_matches ''o1'' (session_paid\<lparr>amount_total := None\<rparr>) order_pending
   \<and> currency_supported (session_paid\<lparr>amount_total := None\<rparr>)
   \<and> amount_total (session_paid\<lparr>amount_total := None\<rparr>) = None
   \<and> 101 / 10000 \<le> \<bar>totalAmount order_pending\<bar> \<and> \<bar>totalAmount order_pending\<bar> \<le> 10 ^ 9
   \<and> handleSuccessfulPayment (world (session_paid\<lparr>amount_total := None\<rparr>)) ''cs_1''
        (store order_pending)
      = (Inl (AmountMismatch (to_double (4999 / 100)) (Fin 0)), store order_pending)
   \<and> \<bar>totalAmount (order_pending\<lparr>totalAmount := 1 / 100\<rparr>)\<bar> = 1 / 100
   \<and> fst (handleSuccessfulPayment (world (session_paid\<lparr>amount_total := None\<rparr>)) ''cs_1''
        (store (order_pending\<lparr>totalAmount := 1 / 100\<rparr>))) = Inr ()"
proof -
  let ?s = "session_paid\<lparr>amount_total := None\<rparr>"
  let ?c = "order_pending\<lparr>totalAmount := 1 / 100\<rparr>"
  have r: "resolves (world ?s) ''cs_1'' (store order_pending) ?s ''o1'' order_pending"
    by (rule example_resolves) (simp_all add: session_paid_def metadata_field_def)
  have rc: "resolves (world ?s) ''cs_1'' (store ?c) ?s ''o1'' ?c"
    by (rule example_resolves) (simp_all add: session_paid_def metadata_field_def)
  have np: "status order_pending \<noteq> ''PAID''" "status ?c \<noteq> ''PAID''"
    by (simp_all add: order_pending_def)
  have i: "identity_matches ''o1'' ?s order_pending" "identity_matches ''o1'' ?s ?c"
    by (rule sample_identity, simp_all add: session_paid_def metadata_field_def order_pending_def)+
  have c: "currency_supported ?s" by (rule sample_currency) (simp add: session_paid_def)
  have a: "amount_total ?s = None \<or> amount_total ?s = Some 0" by simp
  have t: "101 / 10000 \<le> \<bar>totalAmount order_pending\<bar> \<and> \<bar>totalAmount order_pending\<bar> \<le> 10 ^ 9"
    by (simp add: order_pending_def)
  have tc: "\<bar>totalAmount ?c\<bar> \<le> 99 / 10000 \<or> \<bar>totalAmount ?c\<bar> = 1 / 100" by simp
  have o: "orderTotal order_pending = to_double (4999 / 100)"
    by (simp only: orderTotal_def order_pending_def Order.simps)
  have ok: "fst (commit (world ?s) ''o1'' ?s ?c (store ?c)) = Inr ()"
    by (rule world_commit_ok) (simp add: truthy_def order_pending_def)
  from absent_amount [OF r np(1) i(1) c a] t
  have 1: "handleSuccessfulPayment (world ?s) ''cs_1'' (store order_pending)
      = (Inl (AmountMismatch (orderTotal order_pending) (Fin 0)), store order_pending)"
    by blast
  from absent_amount [OF rc np(2) i(2) c a] tc
  have "handleSuccessfulPayment (world ?s) ''cs_1'' (store ?c) = commit (world ?s) ''o1'' ?s ?c (store ?c)"
    by blast
  with ok have 2: "fst (handleSuccessfulPayment (world ?s) ''cs_1'' (store ?c)) = Inr ()" by simp
  have 3: "\<bar>totalAmount ?c\<bar> = 1 / 100" by simp
  from r np(1) i(1) c t 1 2 3 show ?thesis unfolding o by simp
qed

text \<open>
  The claim as first stated compares the exact order total with 0.01. A total of
  0.010000000000000001 exceeds 0.01, but its binary64 value is that of 0.01, and the
  function succeeds.
\<close>

theorem absent_amount_counterexample:
  "amount_total (session_paid\<lparr>amount_total := None\<rparr>) = None
   \<and> 1 / 100 < totalAmount (order_pending\<lparr>totalAmount := 1 / 100 + 1 / 10 ^ 18\<rparr>)
   \<and> fst (handleSuccessfulPayment (world (session_paid\<lparr>amount_total := None\<rparr>)) ''cs_1''
        (store (order_pending\<lparr>totalAmount := 1 / 100 + 1 / 10 ^ 18\<rparr>))) = Inr ()"
proof -
  let ?s = "session_paid\<lparr>amount_total := None\<rparr>"
  let ?o = "order_pending\<lparr>totalAmount := 1 / 100 + 1 / 10 ^ 18\<rparr>"
  have d: "\<not> amount_differs ?s ?o" by (rule absent_near_cent) simp_all
  have ok: "fst (commit (world ?s) ''o1'' ?s ?o (store ?o)) = Inr ()"
    by (rule world_commit_ok) (simp add: truthy_def order_pending_def)
  have "handleSuccessfulPayment (world ?s) ''cs_1'' (store ?o) = commit (world ?s) ''o1'' ?s ?o (store ?o)"
    using sample_amount_stage [of ?s None ?o "1 / 100 + 1 / 10 ^ 18"] d by simp
  with ok show ?thesis by simp
qed

end
